theory Spec2Isabelle
  imports Complex_Main
begin

section \<open>Workshops (talleres): the table and the status recomputation\<close>

text \<open>
  A Python \<open>datetime.date\<close> is modelled by its proleptic ordinal, an integer number of
  days: comparison of dates is comparison of integers and \<open>(a - b).days\<close> is \<open>a - b\<close>.
\<close>

type_synonym date = int

text \<open>
  A row of \<open>talleres.models.Taller\<close>. \<open>pk\<close> is the primary key (\<open>id\<close>); the text columns
  that no operation below reads (descripcion, horario, lugar, facilitador, notas and the
  two timestamps) are left out. \<open>estado\<close> is a \<open>CharField\<close>, so it is a string here too.
\<close>

record taller =
  pk :: nat
  nombre :: string
  fecha_inicio :: date
  fecha_fin :: date
  capacidad :: int
  estado :: string

text \<open>
  The table \<open>Taller.objects.all()\<close> is the list of its rows. \<open>t.save()\<close> on a row that was
  read from the table writes every column of the row with that primary key;
  \<open>t.save(update_fields=['estado'])\<close> writes the column \<open>estado\<close> only.
\<close>

definition save :: "taller \<Rightarrow> taller list \<Rightarrow> taller list" where
  "save t db = map (\<lambda>r. if pk r = pk t then t else r) db"

definition save_estado :: "taller \<Rightarrow> taller list \<Rightarrow> taller list" where
  "save_estado t db = map (\<lambda>r. if pk r = pk t then r\<lparr>estado := estado t\<rparr> else r) db"

text \<open>\<open>Taller.objects.exclude(estado='CANCELADO')\<close>\<close>

definition exclude_cancelado :: "taller list \<Rightarrow> taller list" where
  "exclude_cancelado db = filter (\<lambda>t. estado t \<noteq> ''CANCELADO'') db"

subsection \<open>talleres/management/commands/actualizar\_estados\_talleres.py\<close>

text \<open>
  One iteration of the loop of \<open>Command.handle\<close>: the row \<open>t\<close> read by the query gets its
  status from the dates and is saved when the status changed. The lines written to
  stdout and the two counters are not modelled.
\<close>

definition actualizar_estados_talleres_paso :: "date \<Rightarrow> taller \<Rightarrow> taller list \<Rightarrow> taller list" where
  "actualizar_estados_talleres_paso today t db =
     (let estado_anterior = estado t;
          t' = (if today < fecha_inicio t then t\<lparr>estado := ''PROGRAMADO''\<rparr>
                else if fecha_inicio t \<le> today \<and> today \<le> fecha_fin t then t\<lparr>estado := ''EN_CURSO''\<rparr>
                else t\<lparr>estado := ''FINALIZADO''\<rparr>)
      in if estado t' \<noteq> estado_anterior then save t' db else db)"

definition actualizar_estados_talleres_handle :: "date \<Rightarrow> taller list \<Rightarrow> taller list" where
  "actualizar_estados_talleres_handle today db = fold (actualizar_estados_talleres_paso today) db db"

subsection \<open>actualizar\_estados.py (the standalone script)\<close>

definition actualizar_estados_paso :: "date \<Rightarrow> taller \<Rightarrow> taller list \<Rightarrow> taller list" where
  "actualizar_estados_paso today t db =
     (let estado_anterior = estado t;
          t' = (if today < fecha_inicio t then t\<lparr>estado := ''PROGRAMADO''\<rparr>
                else if fecha_inicio t \<le> today \<and> today \<le> fecha_fin t then t\<lparr>estado := ''EN_CURSO''\<rparr>
                else t\<lparr>estado := ''FINALIZADO''\<rparr>)
      in if estado t' \<noteq> estado_anterior then save t' db else db)"

definition actualizar_estados :: "date \<Rightarrow> taller list \<Rightarrow> taller list" where
  "actualizar_estados today db = fold (actualizar_estados_paso today) db db"

subsection \<open>talleres/management/commands/actualizar\_estados.py\<close>

text \<open>
  \<open>Command.handle\<close> iterates over the rows that are not cancelled; \<open>nuevo_estado\<close> is
  computed from the dates and written with \<open>save(update_fields=['estado'])\<close> when it
  differs from the row's status.
\<close>

definition actualizar_estados_handle_paso :: "date \<Rightarrow> taller \<Rightarrow> taller list \<Rightarrow> taller list" where
  "actualizar_estados_handle_paso hoy t db =
     (let nuevo_estado = (if hoy < fecha_inicio t then ''PROGRAMADO''
                          else if hoy \<le> fecha_fin t then ''EN_CURSO''
                          else ''FINALIZADO'')
      in if estado t \<noteq> nuevo_estado then save_estado (t\<lparr>estado := nuevo_estado\<rparr>) db else db)"

definition actualizar_estados_handle :: "date \<Rightarrow> taller list \<Rightarrow> taller list" where
  "actualizar_estados_handle hoy db =
     fold (actualizar_estados_handle_paso hoy) (exclude_cancelado db) db"

subsection \<open>talleres/views.py\<close>

text \<open>\<open>TallerListView.actualizar_estados_talleres\<close>, called by \<open>get_queryset\<close>.\<close>

definition TallerListView_paso :: "date \<Rightarrow> taller \<Rightarrow> taller list \<Rightarrow> taller list" where
  "TallerListView_paso hoy t db =
     (let nuevo_estado = (if hoy < fecha_inicio t then ''PROGRAMADO''
                          else if hoy \<le> fecha_fin t then ''EN_CURSO''
                          else ''FINALIZADO'')
      in if estado t \<noteq> nuevo_estado then save_estado (t\<lparr>estado := nuevo_estado\<rparr>) db else db)"

definition TallerListView_actualizar_estados_talleres :: "date \<Rightarrow> taller list \<Rightarrow> taller list" where
  "TallerListView_actualizar_estados_talleres hoy db =
     fold (TallerListView_paso hoy) (exclude_cancelado db) db"

text \<open>
  \<open>TallerDetailView.get_object\<close>: \<open>super().get_object\<close> fetches the row by primary key and
  raises \<open>Http404\<close> when there is none. The result is the object handed to the template
  and the table after the possible save.
\<close>

datatype error = Http404 | ProtectedError | ZeroDivisionError | ValueError

fun get_by_pk :: "nat \<Rightarrow> taller list \<Rightarrow> error + taller" where
  "get_by_pk k [] = Inl Http404"
| "get_by_pk k (r # rs) = (if pk r = k then Inr r else get_by_pk k rs)"

definition TallerDetailView_get_object :: "date \<Rightarrow> nat \<Rightarrow> taller list \<Rightarrow> error + taller \<times> taller list" where
  "TallerDetailView_get_object hoy k db =
     (case get_by_pk k db of
        Inl e \<Rightarrow> Inl e
      | Inr taller \<Rightarrow>
          if estado taller \<noteq> ''CANCELADO'' then
            (let nuevo_estado = (if hoy < fecha_inicio taller then ''PROGRAMADO''
                                 else if hoy \<le> fecha_fin taller then ''EN_CURSO''
                                 else ''FINALIZADO'')
             in if estado taller \<noteq> nuevo_estado
                then Inr (taller\<lparr>estado := nuevo_estado\<rparr>,
                          save_estado (taller\<lparr>estado := nuevo_estado\<rparr>) db)
                else Inr (taller, db))
          else Inr (taller, db))"

text \<open>
  A validated \<open>TallerForm\<close>: \<open>cleaned_data.get('estado')\<close> (\<open>None\<close> when the key is absent)
  and \<open>form.instance\<close>, the row built from the submitted fields.
\<close>

record taller_form =
  cleaned_data_estado :: "string option"
  form_instance :: taller

text \<open>
  \<open>TallerCreateView.form_valid\<close> and \<open>TallerUpdateView.form_valid\<close> set the status of
  \<open>form.instance\<close>; \<open>super().form_valid(form)\<close> then stores the instance: an insert with
  a fresh primary key for the create view, a save of the row for the update view.
\<close>

definition insert_taller :: "taller \<Rightarrow> taller list \<Rightarrow> taller list" where
  "insert_taller t db = db @ [t\<lparr>pk := Suc (fold max (map pk db) 0)\<rparr>]"

definition TallerCreateView_estado :: "date \<Rightarrow> taller_form \<Rightarrow> taller" where
  "TallerCreateView_estado hoy form =
     (let taller = form_instance form in
      if cleaned_data_estado form \<noteq> Some ''CANCELADO'' then
        (if hoy < fecha_inicio taller then taller\<lparr>estado := ''PROGRAMADO''\<rparr>
         else if hoy \<le> fecha_fin taller then taller\<lparr>estado := ''EN_CURSO''\<rparr>
         else taller\<lparr>estado := ''FINALIZADO''\<rparr>)
      else taller)"

definition TallerCreateView_form_valid :: "date \<Rightarrow> taller_form \<Rightarrow> taller list \<Rightarrow> taller list" where
  "TallerCreateView_form_valid hoy form db = insert_taller (TallerCreateView_estado hoy form) db"

definition TallerUpdateView_estado :: "date \<Rightarrow> taller_form \<Rightarrow> taller" where
  "TallerUpdateView_estado hoy form =
     (let taller = form_instance form in
      if cleaned_data_estado form \<noteq> Some ''CANCELADO'' then
        (if hoy < fecha_inicio taller then taller\<lparr>estado := ''PROGRAMADO''\<rparr>
         else if hoy \<le> fecha_fin taller then taller\<lparr>estado := ''EN_CURSO''\<rparr>
         else taller\<lparr>estado := ''FINALIZADO''\<rparr>)
      else taller)"

definition TallerUpdateView_form_valid :: "date \<Rightarrow> taller_form \<Rightarrow> taller list \<Rightarrow> taller list" where
  "TallerUpdateView_form_valid hoy form db = save (TallerUpdateView_estado hoy form) db"


subsection \<open>The rule as one function\<close>

text \<open>
  Every copy above writes the same chain of comparisons out. As one function of today's
  date and the two dates of the workshop it reads as follows; the lemmas below state
  what each copy computes in terms of it.
\<close>

definition estado_por_fechas :: "date \<Rightarrow> date \<Rightarrow> date \<Rightarrow> string" where
  "estado_por_fechas hoy inicio fin =
     (if hoy < inicio then ''PROGRAMADO'' else if hoy \<le> fin then ''EN_CURSO'' else ''FINALIZADO'')"

definition recalcular :: "date \<Rightarrow> taller \<Rightarrow> taller" where
  "recalcular hoy r = r\<lparr>estado := estado_por_fechas hoy (fecha_inicio r) (fecha_fin r)\<rparr>"

section \<open>Workshops: occupancy (talleres/models.py)\<close>

text \<open>
  A row of \<open>Participante\<close>, with its foreign key to the workshop;
  \<open>self.participante_set\<close> is the set of rows that point to the workshop.
\<close>

record participante =
  participante_pk :: nat
  taller_id :: nat

definition participante_set :: "taller \<Rightarrow> participante list \<Rightarrow> participante list" where
  "participante_set self ps = filter (\<lambda>p. taller_id p = pk self) ps"

definition inscritos_count :: "taller \<Rightarrow> participante list \<Rightarrow> int" where
  "inscritos_count self ps = int (length (participante_set self ps))"

definition disponibilidad :: "taller \<Rightarrow> participante list \<Rightarrow> int" where
  "disponibilidad self ps = max 0 (capacidad self - inscritos_count self ps)"

definition esta_lleno :: "taller \<Rightarrow> participante list \<Rightarrow> bool" where
  "esta_lleno self ps = (inscritos_count self ps \<ge> capacidad self)"

text \<open>
  Python's \<open>a / b\<close> on integers raises \<open>ZeroDivisionError\<close> when \<open>b\<close> is zero and
  otherwise gives a float. The float arithmetic is a parameter: \<open>fdiv\<close> is the quotient
  of two integers as a float, \<open>fmul\<close> the product of a float and an integer. A Python
  number is an \<open>int\<close> or a float.
\<close>

datatype 'f number = PyInt int | PyFloat 'f

definition truediv :: "(int \<Rightarrow> int \<Rightarrow> 'f) \<Rightarrow> int \<Rightarrow> int \<Rightarrow> error + 'f" where
  "truediv fdiv a b = (if b = 0 then Inl ZeroDivisionError else Inr (fdiv a b))"

definition porcentaje_ocupacion ::
  "(int \<Rightarrow> int \<Rightarrow> 'f) \<Rightarrow> ('f \<Rightarrow> int \<Rightarrow> 'f) \<Rightarrow> taller \<Rightarrow> participante list \<Rightarrow> error + 'f number" where
  "porcentaje_ocupacion fdiv fmul self ps =
     (if capacidad self \<le> 0 then Inr (PyInt 0)
      else case truediv fdiv (inscritos_count self ps) (capacidad self) of
             Inl e \<Rightarrow> Inl e
           | Inr q \<Rightarrow> Inr (PyFloat (fmul q 100)))"

section \<open>Members and payments (finanzas/models.py)\<close>

text \<open>
  Rows of \<open>Socio\<close> and \<open>PagoSocio\<close> with the columns the operations below read.
  \<open>socio_id\<close> is the foreign key behind the related manager \<open>socio.pagos\<close>.
\<close>

record socio =
  socio_pk :: nat
  fecha_registro :: date

record pago_socio =
  pago_pk :: nat
  socio_id :: nat
  fecha :: date
  comprobante :: string

definition pagos :: "socio \<Rightarrow> pago_socio list \<Rightarrow> pago_socio list" where
  "pagos self tabla = filter (\<lambda>p. socio_id p = socio_pk self) tabla"

text \<open>\<open>queryset.first()\<close> is the first row, or \<open>None\<close> on an empty result.\<close>

definition first :: "'a list \<Rightarrow> 'a option" where
  "first xs = (case xs of [] \<Rightarrow> None | x # _ \<Rightarrow> Some x)"

text \<open>\<open>order_by('-fecha')\<close> and \<open>order_by('-id')\<close>: descending in the column.\<close>

definition order_by_fecha_desc :: "pago_socio list \<Rightarrow> pago_socio list" where
  "order_by_fecha_desc xs = sort_key (\<lambda>p. - fecha p) xs"

definition order_by_id_desc :: "pago_socio list \<Rightarrow> pago_socio list" where
  "order_by_id_desc xs = sort_key (\<lambda>p. - int (pago_pk p)) xs"

definition get_ultima_cuota :: "socio \<Rightarrow> pago_socio list \<Rightarrow> date option" where
  "get_ultima_cuota self tabla =
     (let ultimo_pago = first (order_by_fecha_desc (pagos self tabla))
      in case ultimo_pago of Some p \<Rightarrow> Some (fecha p) | None \<Rightarrow> None)"

text \<open>
  \<open>Socio.esta_al_dia\<close>, with today's date \<open>hoy\<close> as an argument. A \<open>date\<close> object is
  always true in a condition, so \<open>if ultimo_pago\<close> tests for \<open>None\<close>.
\<close>

definition esta_al_dia :: "date \<Rightarrow> socio \<Rightarrow> pago_socio list \<Rightarrow> bool" where
  "esta_al_dia hoy self tabla =
     (case get_ultima_cuota self tabla of
        Some ultimo_pago \<Rightarrow>
          (let dias_desde_ultimo_pago = hoy - ultimo_pago in dias_desde_ultimo_pago \<le> 40)
      | None \<Rightarrow>
          (let dias_desde_registro = hoy - fecha_registro self in dias_desde_registro \<le> 40))"

subsection \<open>Python's \<open>int(str)\<close> and \<open>str(int)\<close>\<close>

text \<open>
  A character stands for a code point below 256. \<open>int\<close> on a string skips white space
  at both ends (the ASCII white space and the code points 0x85 and 0xA0), reads an
  optional sign and then decimal digits, where single underscores may stand between
  digits; anything else is a \<open>ValueError\<close>. The field has \<open>max_length=50\<close>, far below
  the length where CPython refuses the conversion of long digit strings.
\<close>

definition is_space :: "char \<Rightarrow> bool" where
  "is_space c = (c \<in> set [CHR 0x09, CHR 0x0A, CHR 0x0B, CHR 0x0C, CHR 0x0D, CHR 0x20, CHR 0x85, CHR 0xA0])"

definition strip :: "string \<Rightarrow> string" where
  "strip s = rev (dropWhile is_space (rev (dropWhile is_space s)))"

definition is_digit :: "char \<Rightarrow> bool" where
  "is_digit c = ((48::nat) \<le> of_char c \<and> of_char c \<le> (57::nat))"

definition digit_val :: "char \<Rightarrow> nat" where
  "digit_val c = of_char c - 48"

fun py_digits :: "nat \<Rightarrow> string \<Rightarrow> nat option"
  and py_digits_rest :: "nat \<Rightarrow> string \<Rightarrow> nat option" where
  "py_digits acc [] = None"
| "py_digits acc (c # cs) =
     (if is_digit c then py_digits_rest (10 * acc + digit_val c) cs else None)"
| "py_digits_rest acc [] = Some acc"
| "py_digits_rest acc (c # cs) =
     (if c = CHR ''_'' then py_digits acc cs
      else if is_digit c then py_digits_rest (10 * acc + digit_val c) cs
      else None)"

definition py_int :: "string \<Rightarrow> error + int" where
  "py_int s =
     (case strip s of
        [] \<Rightarrow> Inl ValueError
      | c # cs \<Rightarrow>
          (case (if c = CHR ''-'' then map_option (\<lambda>n. - int n) (py_digits 0 cs)
                 else if c = CHR ''+'' then map_option int (py_digits 0 cs)
                 else map_option int (py_digits 0 (c # cs))) of
             None \<Rightarrow> Inl ValueError
           | Some n \<Rightarrow> Inr n))"

definition digit_char :: "nat \<Rightarrow> char" where
  "digit_char d = char_of (48 + d)"

fun str_nat :: "nat \<Rightarrow> string" where
  "str_nat n = (if n < 10 then [digit_char n] else str_nat (n div 10) @ [digit_char (n mod 10)])"

declare str_nat.simps [simp del]

definition str_int :: "int \<Rightarrow> string" where
  "str_int i = (if i < 0 then CHR ''-'' # str_nat (nat (- i)) else str_nat (nat i))"

text \<open>\<open>PagoSocio.get_next_comprobante\<close> (a class method: its input is the table).\<close>

definition get_next_comprobante :: "pago_socio list \<Rightarrow> string" where
  "get_next_comprobante tabla =
     (let ultimo_pago = first (order_by_id_desc tabla) in
      case ultimo_pago of
        None \<Rightarrow> ''1''
      | Some p \<Rightarrow>
          if comprobante p = [] then ''1''
          else (case py_int (comprobante p) of
                  Inr ultimo_numero \<Rightarrow> str_int (ultimo_numero + 1)
                | Inl e \<Rightarrow> ''1''))"


section \<open>Responses and flash messages\<close>

text \<open>
  What a view returns: \<open>HttpResponse(content, content_type=...)\<close>, a
  \<open>JsonResponse\<close> of a list of dictionaries, or a redirect. \<open>redirect('name')\<close> and
  \<open>reverse_lazy('name')\<close> resolve a URL name through the URL configuration, which is
  not part of the model: a redirect carries the URL name.
\<close>

datatype json = JInt int | JStr string | JNull

datatype response =
    HttpResponse string string
  | JsonResponse "(string \<times> json) list list"
  | HttpResponseRedirect string

text \<open>
  \<open>messages.success\<close> and \<open>messages.error\<close> append to the messages of the request.
  Code points above 127 in a text are written as characters by number.
\<close>

datatype level = SUCCESS | ERROR

type_synonym messages = "(level \<times> string) list"

section \<open>Categories (finanzas)\<close>

record categoria =
  categoria_pk :: nat
  categoria_nombre :: string
  tipo :: string

text \<open>
  \<open>Ingreso.categoria\<close> and \<open>Egreso.categoria\<close> are foreign keys with
  \<open>on_delete=models.PROTECT\<close>.
\<close>

record ingreso =
  ingreso_pk :: nat
  ingreso_categoria_id :: nat

record egreso =
  egreso_pk :: nat
  egreso_categoria_id :: nat

record finanzas_db =
  categorias :: "categoria list"
  ingresos :: "ingreso list"
  egresos :: "egreso list"

text \<open>
  \<open>super().delete(request)\<close> is Django's \<open>DeletionMixin.delete\<close>: it fetches the object
  (\<open>Http404\<close> when there is none), takes the success URL, deletes the object and
  answers with a redirect to the success URL. Deleting a row that a \<open>PROTECT\<close> foreign
  key points to raises \<open>ProtectedError\<close> before anything is deleted.
\<close>

definition protegida :: "nat \<Rightarrow> finanzas_db \<Rightarrow> bool" where
  "protegida k db =
     (list_ex (\<lambda>i. ingreso_categoria_id i = k) (ingresos db) \<or>
      list_ex (\<lambda>e. egreso_categoria_id e = k) (egresos db))"

definition DeletionMixin_delete :: "string \<Rightarrow> nat \<Rightarrow> finanzas_db \<Rightarrow> error + response \<times> finanzas_db" where
  "DeletionMixin_delete success_url k db =
     (if \<not> list_ex (\<lambda>c. categoria_pk c = k) (categorias db) then Inl Http404
      else if protegida k db then Inl ProtectedError
      else Inr (HttpResponseRedirect success_url,
                db\<lparr>categorias := filter (\<lambda>c. categoria_pk c \<noteq> k) (categorias db)\<rparr>))"

text \<open>
  \<open>CategoriaDeleteView.delete\<close>. \<open>str_e\<close> is \<open>str(e)\<close>, the text of the exception, which
  Django composes. The result is the response, the database and the messages.
\<close>

definition CategoriaDeleteView_delete ::
  "(error \<Rightarrow> string) \<Rightarrow> nat \<Rightarrow> finanzas_db \<Rightarrow> messages \<Rightarrow> response \<times> finanzas_db \<times> messages" where
  "CategoriaDeleteView_delete str_e k db msgs =
     (case DeletionMixin_delete ''categoria_list'' k db of
        Inr (response, db') \<Rightarrow>
          (response, db',
           msgs @ [(SUCCESS, ''Categor'' @ [CHR 0xED] @ ''a eliminada exitosamente'')])
      | Inl e \<Rightarrow>
          (HttpResponseRedirect ''categoria_list'', db,
           msgs @ [(ERROR, ''No se puede eliminar la categor'' @ [CHR 0xED] @ ''a porque est''
                            @ [CHR 0xE1] @ '' siendo utilizada: '' @ str_e e)]))"

section \<open>Report exports (reportes/views.py)\<close>

definition generar_pdf :: "string \<Rightarrow> 'c \<Rightarrow> response" where
  "generar_pdf template_path context' =
     HttpResponse ''Funcionalidad de PDF temporalmente deshabilitada por falta de dependencias del sistema''
                  ''text/plain''"

definition exportar_balance_financiero_excel :: "'c \<Rightarrow> response" where
  "exportar_balance_financiero_excel context' =
     HttpResponse ''Funcionalidad de Excel temporalmente deshabilitada por falta de dependencias del sistema''
                  ''text/plain''"

section \<open>Beneficiary search\<close>

record beneficiaria =
  beneficiaria_pk :: nat
  nombres :: string
  apellidos :: string
  documento_identidad :: string
  telefono :: string
  correo :: string

text \<open>
  The user of a request: \<open>AnonymousUser\<close> has \<open>is_authenticated = False\<close>; for a
  \<open>Usuario\<close> the role and the permission flag decide \<open>can_access_talleres\<close>.
\<close>

record usuario =
  is_authenticated :: bool
  role :: string
  permiso_talleres :: bool

definition is_admin :: "usuario \<Rightarrow> bool" where
  "is_admin self = (role self = ''administrador'')"

definition can_access_talleres :: "usuario \<Rightarrow> bool" where
  "can_access_talleres self = (is_admin self \<or> permiso_talleres self)"

text \<open>A request: the query parameters as \<open>request.GET.get\<close> reads them, and the user.\<close>

record request =
  GET :: "string \<rightharpoonup> string"
  user :: usuario

text \<open>
  The lookup \<open>field__icontains=term\<close>: \<open>term\<close> occurs in \<open>field\<close> as a contiguous
  substring, letters compared without case. The comparison is the database's; letters
  are folded over ASCII here, as SQLite's \<open>LIKE\<close> does.
\<close>

definition lower :: "char \<Rightarrow> char" where
  "lower c = (if (65::nat) \<le> of_char c \<and> of_char c \<le> (90::nat) then char_of (of_char c + (32::nat)) else c)"

fun starts_with :: "'a list \<Rightarrow> 'a list \<Rightarrow> bool" where
  "starts_with xs [] = True"
| "starts_with [] (y # ys) = False"
| "starts_with (x # xs) (y # ys) = (x = y \<and> starts_with xs ys)"

fun contains :: "'a list \<Rightarrow> 'a list \<Rightarrow> bool" where
  "contains [] t = (t = [])"
| "contains (x # xs) t = (starts_with (x # xs) t \<or> contains xs t)"

definition icontains :: "string \<Rightarrow> string \<Rightarrow> bool" where
  "icontains field term = contains (map lower field) (map lower term)"

definition coincide :: "string \<Rightarrow> beneficiaria \<Rightarrow> bool" where
  "coincide term b =
     (icontains (nombres b) term \<or> icontains (apellidos b) term \<or>
      icontains (documento_identidad b) term)"

subsection \<open>beneficiarias/views.py\<close>

definition buscar_beneficiarias_api :: "request \<Rightarrow> beneficiaria list \<Rightarrow> response" where
  "buscar_beneficiarias_api request tabla =
     (let term = (case GET request ''term'' of None \<Rightarrow> [] | Some v \<Rightarrow> v) in
      if length term < 3 then JsonResponse []
      else
        (let beneficiarias = take 10 (filter (coincide term) tabla)
         in JsonResponse
              (map (\<lambda>b. [(''id'', JInt (int (beneficiaria_pk b))),
                         (''nombres'', JStr (nombres b)),
                         (''apellidos'', JStr (apellidos b)),
                         (''dni'', JStr (documento_identidad b)),
                         (''telefono'', JStr (telefono b)),
                         (''correo'', JStr (correo b))]) beneficiarias)))"

subsection \<open>talleres/views.py and usuarios/decorators.py\<close>

text \<open>
  The module defines \<open>buscar_beneficiarias\<close> twice; the second definition (at the end of
  the file) replaces the first when the module is loaded, so it is the one that the URL
  \<open>buscar-beneficiarias/\<close> is bound to. Its body:
\<close>

definition buscar_beneficiarias_func :: "request \<Rightarrow> beneficiaria list \<Rightarrow> response" where
  "buscar_beneficiarias_func request tabla =
     (let term = (case GET request ''term'' of None \<Rightarrow> [] | Some v \<Rightarrow> v) in
      if length term < 3 then JsonResponse []
      else
        (let beneficiarias = take 10 (filter (coincide term) tabla)
         in JsonResponse
              (map (\<lambda>b. [(''id'', JInt (int (beneficiaria_pk b))),
                         (''nombres'', JStr (nombres b)),
                         (''apellidos'', JStr (apellidos b)),
                         (''dni'', JStr (documento_identidad b)),
                         (''telefono'', JStr (telefono b)),
                         (''email'', JStr (correo b))]) beneficiarias)))"

text \<open>The decorator \<open>permiso_talleres_required\<close> around a view function.\<close>

definition permiso_talleres_required ::
  "(request \<Rightarrow> 'd \<Rightarrow> response) \<Rightarrow> request \<Rightarrow> 'd \<Rightarrow> messages \<Rightarrow> response \<times> messages" where
  "permiso_talleres_required function request db msgs =
     (if is_authenticated (user request) \<and> can_access_talleres (user request)
      then (function request db, msgs)
      else
        (let msgs' = msgs @ [(ERROR, ''No tienes permiso para acceder al m'' @ [CHR 0xF3]
                                      @ ''dulo de talleres.'')]
         in if is_authenticated (user request)
            then (HttpResponseRedirect ''dashboard'', msgs')
            else (HttpResponseRedirect ''login'', msgs')))"

definition buscar_beneficiarias :: "request \<Rightarrow> beneficiaria list \<Rightarrow> messages \<Rightarrow> response \<times> messages" where
  "buscar_beneficiarias = permiso_talleres_required buscar_beneficiarias_func"

section \<open>The request that deletes a category\<close>

text \<open>
  \<open>CategoriaDeleteView\<close> is a \<open>DeleteView\<close> behind \<open>FinanzasRequiredMixin\<close>. The user of
  the request carries the finance flag next to the fields above;
  \<open>Usuario.can_access_finanzas\<close> is \<open>self.is_admin() or self.permiso_finanzas\<close>.
\<close>

record usuario_finanzas = usuario +
  permiso_finanzas :: bool

definition can_access_finanzas :: "usuario_finanzas \<Rightarrow> bool" where
  "can_access_finanzas self = (is_admin (usuario.truncate self) \<or> permiso_finanzas self)"

text \<open>\<open>FinanzasRequiredMixin.test_func\<close>\<close>

definition test_func :: "usuario_finanzas \<Rightarrow> bool" where
  "test_func u = (is_authenticated u \<and> can_access_finanzas u)"

text \<open>
  The HTTP methods that delete. \<open>View.dispatch\<close> calls the method of the view that is
  named after the HTTP method: \<open>DELETE\<close> is answered by \<open>delete\<close>. For \<open>POST\<close>, Django
  before 4.0 has \<open>DeletionMixin.post\<close>, which returns \<open>self.delete(request)\<close>; from 4.0 on
  \<open>BaseDeleteView.post\<close> fetches the object, validates the empty confirmation form and
  calls \<open>form_valid\<close>, which deletes the object itself and never calls \<open>delete\<close>. The
  sources name no Django version, so the version (major, minor) is a parameter.
\<close>

datatype http_method = POST | DELETE

type_synonym django_version = "nat \<times> nat"

definition BaseDeleteView_form_valid :: "string \<Rightarrow> nat \<Rightarrow> finanzas_db \<Rightarrow> error + response \<times> finanzas_db" where
  "BaseDeleteView_form_valid success_url k db =
     (if protegida k db then Inl ProtectedError
      else Inr (HttpResponseRedirect success_url,
                db\<lparr>categorias := filter (\<lambda>c. categoria_pk c \<noteq> k) (categorias db)\<rparr>))"

definition BaseDeleteView_post :: "string \<Rightarrow> nat \<Rightarrow> finanzas_db \<Rightarrow> error + response \<times> finanzas_db" where
  "BaseDeleteView_post success_url k db =
     (if \<not> list_ex (\<lambda>c. categoria_pk c = k) (categorias db) then Inl Http404
      else BaseDeleteView_form_valid success_url k db)"

text \<open>
  The way of a request through \<open>CategoriaDeleteView\<close>: \<open>LoginRequiredMixin.dispatch\<close> and
  \<open>UserPassesTestMixin.dispatch\<close> answer with \<open>handle_no_permission\<close> (an error message
  and a redirect to the dashboard) when the user is not authenticated or fails
  \<open>test_func\<close>; otherwise the handler of the HTTP method runs. \<open>Inl e\<close> is an exception that
  leaves the view: no response of the view, no message.
\<close>

definition handle_no_permission :: "finanzas_db \<Rightarrow> messages \<Rightarrow> error + response \<times> finanzas_db \<times> messages" where
  "handle_no_permission db msgs =
     Inr (HttpResponseRedirect ''dashboard'', db,
          msgs @ [(ERROR, ''No tienes permiso para acceder al m'' @ [CHR 0xF3]
                           @ ''dulo de finanzas.'')])"

definition CategoriaDeleteView_dispatch ::
  "django_version \<Rightarrow> (error \<Rightarrow> string) \<Rightarrow> usuario_finanzas \<Rightarrow> http_method \<Rightarrow> nat \<Rightarrow>
   finanzas_db \<Rightarrow> messages \<Rightarrow> error + response \<times> finanzas_db \<times> messages" where
  "CategoriaDeleteView_dispatch version str_e u request_method k db msgs =
     (if \<not> is_authenticated u then handle_no_permission db msgs
      else if \<not> test_func u then handle_no_permission db msgs
      else
        (case request_method of
           DELETE \<Rightarrow> Inr (CategoriaDeleteView_delete str_e k db msgs)
         | POST \<Rightarrow>
             if fst version < 4 then Inr (CategoriaDeleteView_delete str_e k db msgs)
             else (case BaseDeleteView_post ''categoria_list'' k db of
                     Inl e \<Rightarrow> Inl e
                   | Inr (response, db') \<Rightarrow> Inr (response, db', msgs))))"

section \<open>Example data\<close>

text \<open>Small tables on which the theorems below are instantiated.\<close>

definition talleres_ejemplo :: "taller list" where
  "talleres_ejemplo =
     [\<lparr>pk = 1, nombre = ''Costura'', fecha_inicio = 10, fecha_fin = 20, capacidad = 15,
       estado = ''CANCELADO''\<rparr>,
      \<lparr>pk = 2, nombre = ''Tejido'', fecha_inicio = 10, fecha_fin = 20, capacidad = 2,
       estado = ''PROGRAMADO''\<rparr>,
      \<lparr>pk = 3, nombre = ''Cocina'', fecha_inicio = 30, fecha_fin = 40, capacidad = 0,
       estado = ''FINALIZADO''\<rparr>]"

definition form_ejemplo :: taller_form where
  "form_ejemplo =
     \<lparr>cleaned_data_estado = Some ''PROGRAMADO'',
      form_instance = \<lparr>pk = 0, nombre = ''Tejido II'', fecha_inicio = 10, fecha_fin = 20,
                       capacidad = 8, estado = ''PROGRAMADO''\<rparr>\<rparr>"

definition taller_tejido :: taller where
  "taller_tejido =
     \<lparr>pk = 2, nombre = ''Tejido'', fecha_inicio = 10, fecha_fin = 20, capacidad = 2,
      estado = ''PROGRAMADO''\<rparr>"

definition taller_cocina :: taller where
  "taller_cocina =
     \<lparr>pk = 3, nombre = ''Cocina'', fecha_inicio = 30, fecha_fin = 40, capacidad = 0,
      estado = ''FINALIZADO''\<rparr>"

definition participantes_ejemplo :: "participante list" where
  "participantes_ejemplo =
     [\<lparr>participante_pk = 1, taller_id = 2\<rparr>, \<lparr>participante_pk = 2, taller_id = 1\<rparr>,
      \<lparr>participante_pk = 3, taller_id = 2\<rparr>, \<lparr>participante_pk = 4, taller_id = 2\<rparr>]"

definition finanzas_ejemplo :: finanzas_db where
  "finanzas_ejemplo =
     \<lparr>categorias = [\<lparr>categoria_pk = 1, categoria_nombre = ''Donaciones'', tipo = ''INGRESO''\<rparr>,
                    \<lparr>categoria_pk = 2, categoria_nombre = ''Alquiler'', tipo = ''EGRESO''\<rparr>],
      ingresos = [\<lparr>ingreso_pk = 1, ingreso_categoria_id = 1\<rparr>],
      egresos = []\<rparr>"

definition socio_ejemplo :: socio where
  "socio_ejemplo = \<lparr>socio_pk = 7, fecha_registro = 100\<rparr>"

definition socio_nuevo :: socio where
  "socio_nuevo = \<lparr>socio_pk = 8, fecha_registro = 290\<rparr>"

definition pagos_ejemplo :: "pago_socio list" where
  "pagos_ejemplo =
     [\<lparr>pago_pk = 1, socio_id = 7, fecha = 200, comprobante = ''1''\<rparr>,
      \<lparr>pago_pk = 2, socio_id = 9, fecha = 310, comprobante = ''2''\<rparr>,
      \<lparr>pago_pk = 3, socio_id = 7, fecha = 260, comprobante = ''3''\<rparr>,
      \<lparr>pago_pk = 4, socio_id = 7, fecha = 230, comprobante = ''41''\<rparr>]"

definition beneficiarias_ejemplo :: "beneficiaria list" where
  "beneficiarias_ejemplo =
     [\<lparr>beneficiaria_pk = 1, nombres = ''Ana Maria'', apellidos = ''Quispe'',
       documento_identidad = ''40112233'', telefono = ''999111222'', correo = []\<rparr>,
      \<lparr>beneficiaria_pk = 2, nombres = ''Rosa'', apellidos = ''Huaman'',
       documento_identidad = ''41223344'', telefono = [], correo = []\<rparr>,
      \<lparr>beneficiaria_pk = 3, nombres = ''Luz'', apellidos = ''Santana'',
       documento_identidad = ''42334455'', telefono = [], correo = []\<rparr>]"

definition request_ejemplo :: request where
  "request_ejemplo =
     \<lparr>GET = [''term'' \<mapsto> ''ANA''],
      user = \<lparr>is_authenticated = True, role = ''empleado'', permiso_talleres = True\<rparr>\<rparr>"


section \<open>Properties of the status recomputation\<close>

subsection \<open>The loops as maps over the table\<close>

text \<open>
  A loop that reads rows \<open>ts\<close> from the table and writes each one back at its primary
  key rewrites exactly the rows whose key occurs in \<open>ts\<close>, provided primary keys are
  unique and the rows read are the rows stored.
\<close>

lemma fold_rows:
  assumes step: "\<And>t db. step t db = map (\<lambda>r. if pk r = pk t then h t r else r) db"
    and hg: "\<And>t. h t t = g t"
    and pkg: "\<And>t. pk (g t) = pk t"
  shows "distinct (map pk ts) \<Longrightarrow> (\<forall>t\<in>set ts. \<forall>r\<in>set db. pk r = pk t \<longrightarrow> r = t) \<Longrightarrow>
    fold step ts db = map (\<lambda>r. if pk r \<in> pk ` set ts then g r else r) db"
proof (induction ts arbitrary: db)
  case Nil
  then show ?case by simp
next
  case (Cons t ts)
  let ?db' = "step t db"
  have d: "distinct (map pk ts)" and nt: "pk t \<notin> pk ` set ts"
    using Cons.prems(1) by auto
  have first: "?db' = map (\<lambda>r. if pk r = pk t then g r else r) db"
    unfolding step
  proof (rule map_cong[OF refl])
    fix r assume "r \<in> set db"
    then show "(if pk r = pk t then h t r else r) = (if pk r = pk t then g r else r)"
      using Cons.prems(2) hg by auto
  qed
  have inv: "\<forall>t'\<in>set ts. \<forall>r\<in>set ?db'. pk r = pk t' \<longrightarrow> r = t'"
  proof (intro ballI impI)
    fix t' r assume t': "t' \<in> set ts" and r: "r \<in> set ?db'" and e: "pk r = pk t'"
    from r obtain r0 where r0: "r0 \<in> set db" and rr: "r = (if pk r0 = pk t then g r0 else r0)"
      unfolding first by auto
    show "r = t'"
    proof (cases "pk r0 = pk t")
      case True
      then have "pk r = pk t" using rr pkg by simp
      with e have "pk t = pk t'" by simp
      with t' have "pk t \<in> pk ` set ts" by (simp add: image_iff) blast
      with nt show ?thesis by simp
    next
      case False
      then show ?thesis using rr r0 e t' Cons.prems(2) by simp
    qed
  qed
  have "fold step (t # ts) db = fold step ts ?db'" by simp
  also have "\<dots> = map (\<lambda>r. if pk r \<in> pk ` set ts then g r else r) ?db'"
    by (rule Cons.IH[OF d inv])
  also have "\<dots> = map (\<lambda>r. if pk r \<in> pk ` set (t # ts) then g r else r) db"
    unfolding first using nt pkg by (auto simp: comp_def)
  finally show ?case .
qed

lemma distinct_pk_rows:
  "distinct (map pk db) \<Longrightarrow> t \<in> set db \<Longrightarrow> r \<in> set db \<Longrightarrow> pk r = pk t \<Longrightarrow> r = t"
  by (meson distinct_map inj_onD)

lemma pk_recalcular: "pk (recalcular hoy t) = pk t"
  by (simp add: recalcular_def)

lemma cadena_talleres:
  "(if today < fecha_inicio t then t\<lparr>estado := ''PROGRAMADO''\<rparr>
    else if fecha_inicio t \<le> today \<and> today \<le> fecha_fin t then t\<lparr>estado := ''EN_CURSO''\<rparr>
    else t\<lparr>estado := ''FINALIZADO''\<rparr>) = recalcular today t"
  by (simp add: recalcular_def estado_por_fechas_def)

lemma cadena_nuevo_estado:
  "(if hoy < fecha_inicio t then ''PROGRAMADO''
    else if hoy \<le> fecha_fin t then ''EN_CURSO'' else ''FINALIZADO'') = estado (recalcular hoy t)"
  by (simp add: recalcular_def estado_por_fechas_def)

lemma recalcular_estado_upd: "t\<lparr>estado := estado (recalcular hoy t)\<rparr> = recalcular hoy t"
  by (simp add: recalcular_def)

lemma actualizar_estados_talleres_paso_map:
  "actualizar_estados_talleres_paso today t db =
     map (\<lambda>r. if pk r = pk t then (if estado (recalcular today t) \<noteq> estado t then recalcular today t else r) else r) db"
proof (cases "estado (recalcular today t) = estado t")
  case True
  then show ?thesis
    unfolding actualizar_estados_talleres_paso_def Let_def cadena_talleres by (simp cong: if_cong)
next
  case False
  then show ?thesis
    unfolding actualizar_estados_talleres_paso_def Let_def cadena_talleres
    by (simp add: save_def pk_recalcular cong: if_cong)
qed

lemma recalcular_same: "estado (recalcular hoy t) = estado t \<Longrightarrow> recalcular hoy t = t"
  by (simp add: recalcular_def)

lemma actualizar_estados_talleres_handle_map:
  assumes "distinct (map pk db)"
  shows "actualizar_estados_talleres_handle today db = map (recalcular today) db"
proof -
  have "fold (actualizar_estados_talleres_paso today) db db =
      map (\<lambda>r. if pk r \<in> pk ` set db then recalcular today r else r) db"
  proof (rule fold_rows[where h = "\<lambda>t r. if estado (recalcular today t) \<noteq> estado t then recalcular today t else r"])
    show "\<And>t db. actualizar_estados_talleres_paso today t db =
            map (\<lambda>r. if pk r = pk t then if estado (recalcular today t) \<noteq> estado t then recalcular today t else r else r) db"
      by (rule actualizar_estados_talleres_paso_map)
    show "\<And>t. (if estado (recalcular today t) \<noteq> estado t then recalcular today t else t) = recalcular today t"
      by (simp add: recalcular_same)
    show "\<And>t. pk (recalcular today t) = pk t" by (rule pk_recalcular)
    show "distinct (map pk db)" by (rule assms)
    show "\<forall>t\<in>set db. \<forall>r\<in>set db. pk r = pk t \<longrightarrow> r = t"
      using distinct_pk_rows[OF assms] by blast
  qed
  also have "\<dots> = map (recalcular today) db"
    by (rule map_cong) auto
  finally show ?thesis by (simp add: actualizar_estados_talleres_handle_def)
qed

lemma actualizar_estados_handle_paso_map:
  "actualizar_estados_handle_paso hoy t db =
     map (\<lambda>r. if pk r = pk t then (if estado t \<noteq> estado (recalcular hoy t) then r\<lparr>estado := estado (recalcular hoy t)\<rparr> else r) else r) db"
proof (cases "estado t = estado (recalcular hoy t)")
  case True
  then show ?thesis
    unfolding actualizar_estados_handle_paso_def Let_def cadena_nuevo_estado by (simp cong: if_cong)
next
  case False
  then show ?thesis
    unfolding actualizar_estados_handle_paso_def Let_def cadena_nuevo_estado recalcular_estado_upd
    by (simp add: save_estado_def pk_recalcular cong: if_cong)
qed

lemma fold_exclude:
  assumes step: "\<And>t db. step t db =
     map (\<lambda>r. if pk r = pk t then (if estado t \<noteq> estado (recalcular hoy t) then r\<lparr>estado := estado (recalcular hoy t)\<rparr> else r) else r) db"
   and d: "distinct (map pk db)"
  shows "fold step (exclude_cancelado db) db =
     map (\<lambda>r. if estado r \<noteq> ''CANCELADO'' then recalcular hoy r else r) db"
proof -
  let ?ts = "exclude_cancelado db"
  have sub: "set ?ts \<subseteq> set db" by (auto simp: exclude_cancelado_def)
  have "fold step ?ts db = map (\<lambda>r. if pk r \<in> pk ` set ?ts then recalcular hoy r else r) db"
  proof (rule fold_rows[where h = "\<lambda>t r. if estado t \<noteq> estado (recalcular hoy t) then r\<lparr>estado := estado (recalcular hoy t)\<rparr> else r"])
    show "\<And>t db. step t db = map (\<lambda>r. if pk r = pk t then if estado t \<noteq> estado (recalcular hoy t) then r\<lparr>estado := estado (recalcular hoy t)\<rparr> else r else r) db"
      by (rule step)
    show "\<And>t. (if estado t \<noteq> estado (recalcular hoy t) then t\<lparr>estado := estado (recalcular hoy t)\<rparr> else t) = recalcular hoy t"
      by (simp add: recalcular_def)
    show "\<And>t. pk (recalcular hoy t) = pk t" by (rule pk_recalcular)
    show "distinct (map pk ?ts)"
      unfolding exclude_cancelado_def using d by (rule distinct_map_filter)
    show "\<forall>t\<in>set ?ts. \<forall>r\<in>set db. pk r = pk t \<longrightarrow> r = t"
      using distinct_pk_rows[OF d] sub by blast
  qed
  also have "\<dots> = map (\<lambda>r. if estado r \<noteq> ''CANCELADO'' then recalcular hoy r else r) db"
  proof (rule map_cong[OF refl])
    fix r assume r: "r \<in> set db"
    have "pk r \<in> pk ` set ?ts \<longleftrightarrow> estado r \<noteq> ''CANCELADO''"
    proof
      assume "pk r \<in> pk ` set ?ts"
      then obtain t where t: "t \<in> set ?ts" and e: "pk r = pk t" by auto
      with sub have "r = t" using distinct_pk_rows[OF d _ r] by blast
      with t show "estado r \<noteq> ''CANCELADO''" by (simp add: exclude_cancelado_def)
    next
      assume "estado r \<noteq> ''CANCELADO''"
      with r have "r \<in> set ?ts" by (simp add: exclude_cancelado_def)
      then show "pk r \<in> pk ` set ?ts" by blast
    qed
    then show "(if pk r \<in> pk ` set ?ts then recalcular hoy r else r) =
       (if estado r \<noteq> ''CANCELADO'' then recalcular hoy r else r)" by simp
  qed
  finally show ?thesis .
qed

lemma actualizar_estados_handle_map:
  assumes "distinct (map pk db)"
  shows "actualizar_estados_handle hoy db =
     map (\<lambda>r. if estado r \<noteq> ''CANCELADO'' then recalcular hoy r else r) db"
  unfolding actualizar_estados_handle_def
  by (rule fold_exclude[OF actualizar_estados_handle_paso_map assms])

lemma actualizar_estados_paso_eq: "actualizar_estados_paso = actualizar_estados_talleres_paso"
  by (simp add: fun_eq_iff actualizar_estados_paso_def actualizar_estados_talleres_paso_def)

lemma actualizar_estados_map:
  "distinct (map pk db) \<Longrightarrow> actualizar_estados today db = map (recalcular today) db"
  using actualizar_estados_talleres_handle_map[of db today]
  by (simp add: actualizar_estados_def actualizar_estados_talleres_handle_def actualizar_estados_paso_eq)

lemma TallerListView_paso_eq: "TallerListView_paso = actualizar_estados_handle_paso"
  by (simp add: fun_eq_iff TallerListView_paso_def actualizar_estados_handle_paso_def)

lemma TallerListView_actualizar_estados_talleres_map:
  "distinct (map pk db) \<Longrightarrow>
   TallerListView_actualizar_estados_talleres hoy db =
     map (\<lambda>r. if estado r \<noteq> ''CANCELADO'' then recalcular hoy r else r) db"
  using actualizar_estados_handle_map[of db hoy]
  by (simp add: TallerListView_actualizar_estados_talleres_def actualizar_estados_handle_def
      TallerListView_paso_eq)

lemma get_by_pk_row:
  "distinct (map pk db) \<Longrightarrow> t \<in> set db \<Longrightarrow> get_by_pk (pk t) db = Inr t"
  by (induction db) auto

lemma TallerDetailView_get_object_fst:
  assumes "get_by_pk k db = Inr t"
  shows "\<exists>db'. TallerDetailView_get_object hoy k db =
           Inr (if estado t \<noteq> ''CANCELADO'' then recalcular hoy t else t, db')"
proof (cases "estado t = ''CANCELADO''")
  case True
  then show ?thesis using assms by (simp add: TallerDetailView_get_object_def)
next
  case False
  then show ?thesis using assms
    unfolding TallerDetailView_get_object_def Let_def cadena_nuevo_estado recalcular_estado_upd
    by (auto dest: recalcular_same[OF sym])
qed

lemma TallerCreateView_estado_recalcular:
  "TallerCreateView_estado hoy form =
     (if cleaned_data_estado form \<noteq> Some ''CANCELADO''
      then recalcular hoy (form_instance form) else form_instance form)"
  unfolding TallerCreateView_estado_def Let_def
  by (simp add: recalcular_def estado_por_fechas_def)

lemma TallerUpdateView_estado_recalcular:
  "TallerUpdateView_estado hoy form =
     (if cleaned_data_estado form \<noteq> Some ''CANCELADO''
      then recalcular hoy (form_instance form) else form_instance form)"
  unfolding TallerUpdateView_estado_def Let_def
  by (simp add: recalcular_def estado_por_fechas_def)

lemma estado_recalcular:
  "estado (recalcular hoy r) = estado_por_fechas hoy (fecha_inicio r) (fecha_fin r)"
  by (simp add: recalcular_def)

lemma cancelado_se_conserva:
  assumes "distinct (map pk db)" and "i < length db" and "estado (db ! i) = ''CANCELADO''"
  shows "estado (actualizar_estados_handle hoy db ! i) = ''CANCELADO''"
    and "estado (TallerListView_actualizar_estados_talleres hoy db ! i) = ''CANCELADO''"
    and "\<exists>db'. TallerDetailView_get_object hoy (pk (db ! i)) db = Inr (db ! i, db')"
  using assms TallerDetailView_get_object_fst[OF get_by_pk_row, of db "db ! i" hoy]
  by (simp_all add: actualizar_estados_handle_map TallerListView_actualizar_estados_talleres_map)

lemma cancelado_se_conserva_form:
  assumes "cleaned_data_estado form = Some ''CANCELADO''"
  shows "TallerCreateView_estado hoy form = form_instance form"
    and "TallerUpdateView_estado hoy form = form_instance form"
  using assms by (simp_all add: TallerCreateView_estado_recalcular TallerUpdateView_estado_recalcular)

lemma estado_por_fechas_iff:
  "(estado_por_fechas hoy s e = ''PROGRAMADO'' \<longleftrightarrow> hoy < s) \<and>
   (estado_por_fechas hoy s e = ''EN_CURSO'' \<longleftrightarrow> s \<le> hoy \<and> hoy \<le> e) \<and>
   (estado_por_fechas hoy s e = ''FINALIZADO'' \<longleftrightarrow> s \<le> hoy \<and> e < hoy)"
  by (auto simp: estado_por_fechas_def)


section \<open>The claims about the workshop status\<close>

text \<open>
  C1. The claim is that no automatic recomputation replaces \<open>CANCELADO\<close>. The command
  \<open>actualizar_estados\<close> and the four views keep it (\<open>cancelado_se_conserva\<close>,
  \<open>cancelado_se_conserva_form\<close>), but the command \<open>actualizar_estados_talleres\<close> and the
  standalone script iterate over all rows and assign the status from the dates: a
  cancelled workshop that starts on day 10, seen on day 5, is stored as \<open>PROGRAMADO\<close>.
\<close>

theorem C1_cancelado_sobrescrito:
  "actualizar_estados_talleres_handle 5
     [\<lparr>pk = 1, nombre = ''Costura'', fecha_inicio = 10, fecha_fin = 20, capacidad = 15,
       estado = ''CANCELADO''\<rparr>]
   = [\<lparr>pk = 1, nombre = ''Costura'', fecha_inicio = 10, fecha_fin = 20, capacidad = 15,
        estado = ''PROGRAMADO''\<rparr>]
   \<and> actualizar_estados 5
     [\<lparr>pk = 1, nombre = ''Costura'', fecha_inicio = 10, fecha_fin = 20, capacidad = 15,
       estado = ''CANCELADO''\<rparr>]
   = [\<lparr>pk = 1, nombre = ''Costura'', fecha_inicio = 10, fecha_fin = 20, capacidad = 15,
        estado = ''PROGRAMADO''\<rparr>]"
  by (simp add: actualizar_estados_talleres_handle_def actualizar_estados_talleres_paso_def
      actualizar_estados_def actualizar_estados_paso_def save_def)

text \<open>
  C2, as stated, fails on a workshop whose end date lies before its start date (the
  model admits such rows; only \<open>TallerForm.clean\<close> rejects them): on day 7, a workshop
  from day 10 to day 5 is \<open>PROGRAMADO\<close> although day 7 is after its end date.
\<close>

theorem C2_finalizado_contraejemplo:
  "\<not> (estado (actualizar_estados_handle 7
          [\<lparr>pk = 1, nombre = ''Costura'', fecha_inicio = 10, fecha_fin = 5, capacidad = 15,
            estado = ''EN_CURSO''\<rparr>] ! 0) = ''FINALIZADO''
       \<longleftrightarrow> (7::int) > 5)"
  by (simp add: actualizar_estados_handle_def actualizar_estados_handle_paso_def
      exclude_cancelado_def save_estado_def)

text \<open>
  C2 (amended). For a workshop that is not cancelled, with unique primary keys in the
  table, after any of the four recomputation loops ran on day \<open>hoy\<close> the status is
  \<open>PROGRAMADO\<close> iff \<open>hoy\<close> is before the start date, \<open>EN_CURSO\<close> iff \<open>hoy\<close> lies between
  start and end date, and \<open>FINALIZADO\<close> iff \<open>hoy\<close> is not before the start date and after
  the end date; when the start date is not after the end date, \<open>FINALIZADO\<close> iff \<open>hoy\<close> is
  after the end date.
\<close>

theorem C2_estado_segun_fechas:
  assumes "distinct (map pk db)" and "i < length db" and "estado (db ! i) \<noteq> ''CANCELADO''"
  shows "\<forall>f \<in> {actualizar_estados_handle, TallerListView_actualizar_estados_talleres,
                 actualizar_estados_talleres_handle, actualizar_estados}.
           (estado (f hoy db ! i) = ''PROGRAMADO'' \<longleftrightarrow> hoy < fecha_inicio (db ! i)) \<and>
           (estado (f hoy db ! i) = ''EN_CURSO'' \<longleftrightarrow>
              fecha_inicio (db ! i) \<le> hoy \<and> hoy \<le> fecha_fin (db ! i)) \<and>
           (estado (f hoy db ! i) = ''FINALIZADO'' \<longleftrightarrow>
              fecha_inicio (db ! i) \<le> hoy \<and> fecha_fin (db ! i) < hoy) \<and>
           (fecha_inicio (db ! i) \<le> fecha_fin (db ! i) \<longrightarrow>
              (estado (f hoy db ! i) = ''FINALIZADO'' \<longleftrightarrow> fecha_fin (db ! i) < hoy))"
proof -
  have e: "estado (f hoy db ! i) = estado_por_fechas hoy (fecha_inicio (db ! i)) (fecha_fin (db ! i))"
    if "f \<in> {actualizar_estados_handle, TallerListView_actualizar_estados_talleres,
             actualizar_estados_talleres_handle, actualizar_estados}" for f
    using that assms
    by (auto simp: actualizar_estados_handle_map TallerListView_actualizar_estados_talleres_map
        actualizar_estados_talleres_handle_map actualizar_estados_map estado_recalcular)
  show ?thesis
  proof
    fix f assume f: "f \<in> {actualizar_estados_handle, TallerListView_actualizar_estados_talleres,
             actualizar_estados_talleres_handle, actualizar_estados}"
    show "(estado (f hoy db ! i) = ''PROGRAMADO'' \<longleftrightarrow> hoy < fecha_inicio (db ! i)) \<and>
           (estado (f hoy db ! i) = ''EN_CURSO'' \<longleftrightarrow>
              fecha_inicio (db ! i) \<le> hoy \<and> hoy \<le> fecha_fin (db ! i)) \<and>
           (estado (f hoy db ! i) = ''FINALIZADO'' \<longleftrightarrow>
              fecha_inicio (db ! i) \<le> hoy \<and> fecha_fin (db ! i) < hoy) \<and>
           (fecha_inicio (db ! i) \<le> fecha_fin (db ! i) \<longrightarrow>
              (estado (f hoy db ! i) = ''FINALIZADO'' \<longleftrightarrow> fecha_fin (db ! i) < hoy))"
      unfolding e[OF f]
      using estado_por_fechas_iff[of hoy "fecha_inicio (db ! i)" "fecha_fin (db ! i)"] by auto
  qed
qed

theorem C2_estado_segun_fechas_witness:
  "distinct (map pk talleres_ejemplo) \<and> 1 < length talleres_ejemplo \<and>
   estado (talleres_ejemplo ! 1) \<noteq> ''CANCELADO'' \<and>
   estado (actualizar_estados_handle 15 talleres_ejemplo ! 1) = ''EN_CURSO'' \<and>
   estado (TallerListView_actualizar_estados_talleres 15 talleres_ejemplo ! 1) = ''EN_CURSO'' \<and>
   estado (actualizar_estados_talleres_handle 15 talleres_ejemplo ! 1) = ''EN_CURSO'' \<and>
   estado (actualizar_estados 15 talleres_ejemplo ! 1) = ''EN_CURSO''"
proof -
  have h: "distinct (map pk talleres_ejemplo)" "1 < length talleres_ejemplo"
    "estado (talleres_ejemplo ! 1) \<noteq> ''CANCELADO''"
    by (simp_all add: talleres_ejemplo_def)
  have d: "fecha_inicio (talleres_ejemplo ! Suc 0) = 10" "fecha_fin (talleres_ejemplo ! Suc 0) = 20"
    by (simp_all add: talleres_ejemplo_def)
  show ?thesis
    using h C2_estado_segun_fechas[OF h, of 15] by (simp add: d)
qed

text \<open>
  C5. For a workshop that is not cancelled, the two management commands, the
  standalone script, the list view, the detail view and the create view (on a form with
  the same two dates and a status other than \<open>CANCELADO\<close>) compute the same status.
\<close>

theorem C5_copias_equivalentes:
  assumes "distinct (map pk db)" and "i < length db" and "estado (db ! i) \<noteq> ''CANCELADO''"
    and "cleaned_data_estado form \<noteq> Some ''CANCELADO''"
    and "fecha_inicio (form_instance form) = fecha_inicio (db ! i)"
    and "fecha_fin (form_instance form) = fecha_fin (db ! i)"
  shows "estado (actualizar_estados_talleres_handle hoy db ! i) =
           estado (actualizar_estados_handle hoy db ! i) \<and>
         estado (actualizar_estados hoy db ! i) =
           estado (actualizar_estados_handle hoy db ! i) \<and>
         estado (TallerListView_actualizar_estados_talleres hoy db ! i) =
           estado (actualizar_estados_handle hoy db ! i) \<and>
         (\<exists>taller db'. TallerDetailView_get_object hoy (pk (db ! i)) db = Inr (taller, db') \<and>
             estado taller = estado (actualizar_estados_handle hoy db ! i)) \<and>
         estado (TallerCreateView_estado hoy form) =
           estado (actualizar_estados_handle hoy db ! i) \<and>
         estado (last (TallerCreateView_form_valid hoy form db)) =
           estado (actualizar_estados_handle hoy db ! i)"
proof -
  let ?e = "estado_por_fechas hoy (fecha_inicio (db ! i)) (fecha_fin (db ! i))"
  have cmd: "estado (actualizar_estados_handle hoy db ! i) = ?e"
    using assms(1-3) by (simp add: actualizar_estados_handle_map estado_recalcular)
  have cmd2: "estado (actualizar_estados_talleres_handle hoy db ! i) = ?e"
    using assms(1-3) by (simp add: actualizar_estados_talleres_handle_map estado_recalcular)
  have script: "estado (actualizar_estados hoy db ! i) = ?e"
    using assms(1-3) by (simp add: actualizar_estados_map estado_recalcular)
  have lista: "estado (TallerListView_actualizar_estados_talleres hoy db ! i) = ?e"
    using assms(1-3)
    by (simp add: TallerListView_actualizar_estados_talleres_map estado_recalcular)
  have "db ! i \<in> set db" using assms(2) by simp
  then have "get_by_pk (pk (db ! i)) db = Inr (db ! i)"
    using assms(1) by (rule get_by_pk_row[rotated])
  from TallerDetailView_get_object_fst[OF this, of hoy]
  have detalle: "\<exists>taller db'. TallerDetailView_get_object hoy (pk (db ! i)) db = Inr (taller, db') \<and>
      estado taller = ?e"
    using assms(3) by (auto simp: estado_recalcular)
  have crear: "estado (TallerCreateView_estado hoy form) = ?e"
    using assms(4-6) by (simp add: TallerCreateView_estado_recalcular estado_recalcular)
  have guardado: "estado (last (TallerCreateView_form_valid hoy form db)) = ?e"
    using crear by (simp add: TallerCreateView_form_valid_def insert_taller_def)
  show ?thesis
    unfolding cmd using cmd2 script lista detalle crear guardado by simp
qed

theorem C5_copias_equivalentes_witness:
  "distinct (map pk talleres_ejemplo) \<and> 1 < length talleres_ejemplo \<and>
   estado (talleres_ejemplo ! 1) \<noteq> ''CANCELADO'' \<and>
   cleaned_data_estado form_ejemplo \<noteq> Some ''CANCELADO'' \<and>
   fecha_inicio (form_instance form_ejemplo) = fecha_inicio (talleres_ejemplo ! 1) \<and>
   fecha_fin (form_instance form_ejemplo) = fecha_fin (talleres_ejemplo ! 1) \<and>
   estado (actualizar_estados_talleres_handle 25 talleres_ejemplo ! 1) =
     estado (actualizar_estados_handle 25 talleres_ejemplo ! 1) \<and>
   estado (actualizar_estados 25 talleres_ejemplo ! 1) =
     estado (actualizar_estados_handle 25 talleres_ejemplo ! 1) \<and>
   estado (TallerListView_actualizar_estados_talleres 25 talleres_ejemplo ! 1) =
     estado (actualizar_estados_handle 25 talleres_ejemplo ! 1) \<and>
   estado (TallerCreateView_estado 25 form_ejemplo) =
     estado (actualizar_estados_handle 25 talleres_ejemplo ! 1) \<and>
   estado (last (TallerCreateView_form_valid 25 form_ejemplo talleres_ejemplo)) =
     estado (actualizar_estados_handle 25 talleres_ejemplo ! 1)"
proof -
  have h: "distinct (map pk talleres_ejemplo)" "1 < length talleres_ejemplo"
    "estado (talleres_ejemplo ! 1) \<noteq> ''CANCELADO''"
    "cleaned_data_estado form_ejemplo \<noteq> Some ''CANCELADO''"
    "fecha_inicio (form_instance form_ejemplo) = fecha_inicio (talleres_ejemplo ! 1)"
    "fecha_fin (form_instance form_ejemplo) = fecha_fin (talleres_ejemplo ! 1)"
    by (simp_all add: talleres_ejemplo_def form_ejemplo_def)
  show ?thesis
    using h C5_copias_equivalentes[OF h, of 25] by simp
qed


section \<open>The claims about occupancy, categories and exports\<close>

text \<open>
  The method \<open>CategoriaDeleteView.delete\<close>, when it is called on a category that exists:
  if an income or an expense points to the category, the deletion raises the integrity
  error, and the method answers with a redirect to the category list, an unchanged
  database and one more message, of level error; if nothing points to it, the category
  is removed, the answer is the redirect to the success URL (the category list) and the
  new message has level success.
\<close>

lemma CategoriaDeleteView_delete_llamada:
  assumes "list_ex (\<lambda>c. categoria_pk c = k) (categorias db)"
  shows "(protegida k db \<longrightarrow>
            DeletionMixin_delete ''categoria_list'' k db = Inl ProtectedError \<and>
            CategoriaDeleteView_delete str_e k db msgs =
              (HttpResponseRedirect ''categoria_list'', db,
               msgs @ [(ERROR, ''No se puede eliminar la categor'' @ [CHR 0xED] @ ''a porque est''
                                @ [CHR 0xE1] @ '' siendo utilizada: '' @ str_e ProtectedError)])) \<and>
         (\<not> protegida k db \<longrightarrow>
            CategoriaDeleteView_delete str_e k db msgs =
              (HttpResponseRedirect ''categoria_list'',
               db\<lparr>categorias := filter (\<lambda>c. categoria_pk c \<noteq> k) (categorias db)\<rparr>,
               msgs @ [(SUCCESS, ''Categor'' @ [CHR 0xED] @ ''a eliminada exitosamente'')]))"
  using assms by (simp add: CategoriaDeleteView_delete_def DeletionMixin_delete_def)

text \<open>
  Which requests reach the method: every \<open>DELETE\<close> request of a user with access, and
  every \<open>POST\<close> request of such a user under a Django before 4.0.
\<close>

lemma CategoriaDeleteView_dispatch_delete:
  assumes "is_authenticated u" and "can_access_finanzas u"
    and "request_method = DELETE \<or> fst version < 4"
  shows "CategoriaDeleteView_dispatch version str_e u request_method k db msgs =
           Inr (CategoriaDeleteView_delete str_e k db msgs)"
  using assms by (cases request_method) (simp_all add: CategoriaDeleteView_dispatch_def test_func_def)

text \<open>
  A \<open>POST\<close> request under Django 4.0 or later does not: when an income or an expense
  points to the category, the integrity error leaves the view; when nothing points to
  it, the category is removed and no message is added.
\<close>

lemma CategoriaDeleteView_dispatch_post:
  assumes "is_authenticated u" and "can_access_finanzas u" and "\<not> fst version < 4"
    and "list_ex (\<lambda>c. categoria_pk c = k) (categorias db)"
  shows "CategoriaDeleteView_dispatch version str_e u POST k db msgs =
           (if protegida k db then Inl ProtectedError
            else Inr (HttpResponseRedirect ''categoria_list'',
                      db\<lparr>categorias := filter (\<lambda>c. categoria_pk c \<noteq> k) (categorias db)\<rparr>,
                      msgs))"
  using assms
  by (simp add: CategoriaDeleteView_dispatch_def test_func_def BaseDeleteView_post_def
      BaseDeleteView_form_valid_def)

text \<open>
  C6. The claim is that the delete operation catches the integrity error, leaves the
  category in place, shows an error message and redirects to the category list, and
  that it shows a success message on success. The method \<open>delete\<close> does so
  (\<open>CategoriaDeleteView_delete_llamada\<close>), but since Django 4.0 a \<open>POST\<close> request, the
  request of the confirmation page, no longer runs it: an administrator who posts the
  deletion of category 1, which an income points to, under Django 5.2 gets the
  uncaught \<open>ProtectedError\<close> and no message, and the deletion of category 2, which
  nothing points to, succeeds without a message.
\<close>

theorem C6_error_no_capturado:
  "CategoriaDeleteView_dispatch (5, 2) (\<lambda>e. [])
     \<lparr>is_authenticated = True, role = ''administrador'', permiso_talleres = False,
      permiso_finanzas = False\<rparr>
     POST 1
     \<lparr>categorias = [\<lparr>categoria_pk = 1, categoria_nombre = ''Donaciones'', tipo = ''INGRESO''\<rparr>,
                    \<lparr>categoria_pk = 2, categoria_nombre = ''Alquiler'', tipo = ''EGRESO''\<rparr>],
      ingresos = [\<lparr>ingreso_pk = 1, ingreso_categoria_id = 1\<rparr>],
      egresos = []\<rparr>
     []
   = Inl ProtectedError \<and>
   CategoriaDeleteView_dispatch (5, 2) (\<lambda>e. [])
     \<lparr>is_authenticated = True, role = ''administrador'', permiso_talleres = False,
      permiso_finanzas = False\<rparr>
     POST 2
     \<lparr>categorias = [\<lparr>categoria_pk = 1, categoria_nombre = ''Donaciones'', tipo = ''INGRESO''\<rparr>,
                    \<lparr>categoria_pk = 2, categoria_nombre = ''Alquiler'', tipo = ''EGRESO''\<rparr>],
      ingresos = [\<lparr>ingreso_pk = 1, ingreso_categoria_id = 1\<rparr>],
      egresos = []\<rparr>
     []
   = Inr (HttpResponseRedirect ''categoria_list'',
          \<lparr>categorias = [\<lparr>categoria_pk = 1, categoria_nombre = ''Donaciones'', tipo = ''INGRESO''\<rparr>],
           ingresos = [\<lparr>ingreso_pk = 1, ingreso_categoria_id = 1\<rparr>],
           egresos = []\<rparr>,
          [])"
  by (simp add: CategoriaDeleteView_dispatch_def test_func_def can_access_finanzas_def
      is_admin_def usuario.truncate_def BaseDeleteView_post_def BaseDeleteView_form_valid_def
      protegida_def)

text \<open>The same two requests under Django 3.2 run the method, which adds the messages.\<close>

lemma CategoriaDeleteView_dispatch_ejemplo_3_2:
  "map_sum id (\<lambda>r. (fst r, map fst (snd (snd r))))
     (CategoriaDeleteView_dispatch (3, 2) (\<lambda>e. [])
        \<lparr>is_authenticated = True, role = ''administrador'', permiso_talleres = False,
         permiso_finanzas = False\<rparr>
        POST 1 finanzas_ejemplo [])
   = Inr (HttpResponseRedirect ''categoria_list'', [ERROR]) \<and>
   map_sum id (\<lambda>r. (fst r, map fst (snd (snd r))))
     (CategoriaDeleteView_dispatch (3, 2) (\<lambda>e. [])
        \<lparr>is_authenticated = True, role = ''administrador'', permiso_talleres = False,
         permiso_finanzas = False\<rparr>
        POST 2 finanzas_ejemplo [])
   = Inr (HttpResponseRedirect ''categoria_list'', [SUCCESS])"
  by (simp add: CategoriaDeleteView_dispatch_def test_func_def can_access_finanzas_def
      is_admin_def usuario.truncate_def CategoriaDeleteView_delete_def DeletionMixin_delete_def
      protegida_def finanzas_ejemplo_def)

text \<open>
  C7. Whatever their arguments, \<open>generar_pdf\<close> and \<open>exportar_balance_financiero_excel\<close>
  return a response of content type \<open>text/plain\<close> whose content says that the function
  is disabled for the time being.
\<close>

theorem C7_exportaciones_deshabilitadas:
  "generar_pdf template_path context' =
     HttpResponse ''Funcionalidad de PDF temporalmente deshabilitada por falta de dependencias del sistema''
                  ''text/plain'' \<and>
   exportar_balance_financiero_excel context'' =
     HttpResponse ''Funcionalidad de Excel temporalmente deshabilitada por falta de dependencias del sistema''
                  ''text/plain''"
  by (simp add: generar_pdf_def exportar_balance_financiero_excel_def)

lemma inscritos_count_nonneg: "0 \<le> inscritos_count self ps"
  by (simp add: inscritos_count_def)

text \<open>
  C8. \<open>porcentaje_ocupacion\<close> returns the integer 0 when the capacity is at most 0 and
  otherwise the float \<open>(inscritos_count / capacidad) * 100\<close>; it raises no exception, in
  particular not \<open>ZeroDivisionError\<close>. This holds for every float arithmetic.
\<close>

theorem C8_porcentaje_ocupacion:
  "porcentaje_ocupacion fdiv fmul self ps =
     (if capacidad self \<le> 0 then Inr (PyInt 0)
      else Inr (PyFloat (fmul (fdiv (inscritos_count self ps) (capacidad self)) 100))) \<and>
   (\<forall>e. porcentaje_ocupacion fdiv fmul self ps \<noteq> Inl e)"
  by (simp add: porcentaje_ocupacion_def truediv_def)

theorem C8_porcentaje_ocupacion_witness:
  "porcentaje_ocupacion (\<lambda>a b. rat_of_int a / rat_of_int b) (\<lambda>q n. q * rat_of_int n)
     taller_tejido participantes_ejemplo = Inr (PyFloat 150) \<and>
   porcentaje_ocupacion (\<lambda>a b. rat_of_int a / rat_of_int b) (\<lambda>q n. q * rat_of_int n)
     taller_cocina participantes_ejemplo = Inr (PyInt 0)"
proof -
  have c: "capacidad taller_tejido = 2" "capacidad taller_cocina = 0"
    by (simp_all add: taller_tejido_def taller_cocina_def)
  have n: "inscritos_count taller_tejido participantes_ejemplo = 3"
    by (simp add: taller_tejido_def participantes_ejemplo_def inscritos_count_def
        participante_set_def)
  show ?thesis
    using C8_porcentaje_ocupacion[of "\<lambda>a b. rat_of_int a / rat_of_int b" "\<lambda>q n. q * rat_of_int n"
        taller_tejido participantes_ejemplo]
      C8_porcentaje_ocupacion[of "\<lambda>a b. rat_of_int a / rat_of_int b" "\<lambda>q n. q * rat_of_int n"
        taller_cocina participantes_ejemplo]
    by (simp add: c n)
qed

text \<open>
  C9. \<open>disponibilidad\<close> is \<open>max(0, capacidad - inscritos_count)\<close> and never negative;
  \<open>esta_lleno\<close> holds iff the enrolments reach the capacity, which for a capacity of at
  least 1 is the case iff \<open>disponibilidad\<close> is 0.
\<close>

theorem C9_disponibilidad_esta_lleno:
  "disponibilidad self ps = max 0 (capacidad self - inscritos_count self ps) \<and>
   0 \<le> disponibilidad self ps \<and>
   (esta_lleno self ps \<longleftrightarrow> inscritos_count self ps \<ge> capacidad self) \<and>
   (capacidad self \<ge> 1 \<longrightarrow> (esta_lleno self ps \<longleftrightarrow> disponibilidad self ps = 0))"
  by (auto simp: disponibilidad_def esta_lleno_def)

theorem C9_disponibilidad_esta_lleno_witness:
  "capacidad taller_tejido \<ge> 1 \<and>
   inscritos_count taller_tejido participantes_ejemplo = 3 \<and>
   disponibilidad taller_tejido participantes_ejemplo = 0 \<and>
   esta_lleno taller_tejido participantes_ejemplo"
proof -
  have c: "capacidad taller_tejido = 2"
    by (simp add: taller_tejido_def)
  have n: "inscritos_count taller_tejido participantes_ejemplo = 3"
    by (simp add: taller_tejido_def participantes_ejemplo_def inscritos_count_def
        participante_set_def)
  show ?thesis
    using C9_disponibilidad_esta_lleno[of taller_tejido participantes_ejemplo]
    by (simp add: c n)
qed


section \<open>The claim about members\<close>

text \<open>
  After \<open>order_by\<close> descending in a column, \<open>first()\<close> is a row where the column is
  largest.
\<close>

lemma first_sort_key_Max:
  fixes f :: "'a \<Rightarrow> int"
  assumes "xs \<noteq> []"
  shows "\<exists>p. first (sort_key (\<lambda>x. - f x) xs) = Some p \<and> p \<in> set xs \<and> f p = Max (f ` set xs)"
proof -
  let ?ys = "sort_key (\<lambda>x. - f x) xs"
  have s: "set ?ys = set xs" by simp
  have "?ys \<noteq> []" using assms s by (metis set_empty)
  then obtain p rest where ys: "?ys = p # rest" by (cases ?ys) auto
  have "sorted (map (\<lambda>x. - f x) ?ys)" by (rule sorted_sort_key)
  then have le: "\<forall>y\<in>set rest. f y \<le> f p" unfolding ys by auto
  have pin: "p \<in> set xs" using s ys by auto
  have "f p = Max (f ` set xs)"
  proof (rule Max_eqI[symmetric])
    show "finite (f ` set xs)" by simp
    show "f p \<in> f ` set xs" using pin by simp
    fix y assume "y \<in> f ` set xs"
    then obtain x where x: "x \<in> set xs" and yx: "y = f x" by auto
    from x have "x = p \<or> x \<in> set rest" using s ys by auto
    then show "y \<le> f p" using le yx by auto
  qed
  then show ?thesis using ys pin by (simp add: first_def)
qed

lemma get_ultima_cuota_None:
  "pagos self tabla = [] \<Longrightarrow> get_ultima_cuota self tabla = None"
  by (simp add: get_ultima_cuota_def order_by_fecha_desc_def first_def)

lemma get_ultima_cuota_Some:
  assumes "pagos self tabla \<noteq> []"
  shows "get_ultima_cuota self tabla = Some (Max (fecha ` set (pagos self tabla)))"
proof -
  from first_sort_key_Max[OF assms, of fecha]
  obtain p where "first (order_by_fecha_desc (pagos self tabla)) = Some p"
    and "fecha p = Max (fecha ` set (pagos self tabla))"
    unfolding order_by_fecha_desc_def by blast
  then show ?thesis by (simp add: get_ultima_cuota_def)
qed

text \<open>
  C3. On day \<open>hoy\<close>, \<open>esta_al_dia\<close> holds iff either the member has a payment and the
  latest date of a payment is at most 40 days before \<open>hoy\<close>, or the member has no
  payment and the registration date is at most 40 days before \<open>hoy\<close>. (A date \<open>d\<close> is at
  most 40 days before \<open>hoy\<close> when \<open>hoy - d \<le> 40\<close>.)
\<close>

theorem C3_esta_al_dia:
  "esta_al_dia hoy self tabla \<longleftrightarrow>
     (pagos self tabla \<noteq> [] \<and> hoy - Max (fecha ` set (pagos self tabla)) \<le> 40) \<or>
     (pagos self tabla = [] \<and> hoy - fecha_registro self \<le> 40)"
proof (cases "pagos self tabla = []")
  case True
  then show ?thesis by (simp add: esta_al_dia_def get_ultima_cuota_None)
next
  case False
  then show ?thesis by (simp add: esta_al_dia_def get_ultima_cuota_Some)
qed

theorem C3_esta_al_dia_witness:
  "pagos socio_ejemplo pagos_ejemplo \<noteq> [] \<and>
   Max (fecha ` set (pagos socio_ejemplo pagos_ejemplo)) = 260 \<and>
   esta_al_dia 300 socio_ejemplo pagos_ejemplo \<and>
   \<not> esta_al_dia 301 socio_ejemplo pagos_ejemplo \<and>
   pagos socio_nuevo pagos_ejemplo = [] \<and>
   esta_al_dia 330 socio_nuevo pagos_ejemplo \<and>
   \<not> esta_al_dia 331 socio_nuevo pagos_ejemplo"
proof -
  have p: "pagos socio_ejemplo pagos_ejemplo =
      [\<lparr>pago_pk = 1, socio_id = 7, fecha = 200, comprobante = ''1''\<rparr>,
       \<lparr>pago_pk = 3, socio_id = 7, fecha = 260, comprobante = ''3''\<rparr>,
       \<lparr>pago_pk = 4, socio_id = 7, fecha = 230, comprobante = ''41''\<rparr>]"
    by (simp add: pagos_def socio_ejemplo_def pagos_ejemplo_def)
  have m: "Max (fecha ` set (pagos socio_ejemplo pagos_ejemplo)) = 260"
    unfolding p by simp
  have q: "pagos socio_nuevo pagos_ejemplo = []"
    by (simp add: pagos_def socio_nuevo_def pagos_ejemplo_def)
  have r: "fecha_registro socio_nuevo = 290" by (simp add: socio_nuevo_def)
  have ne: "pagos socio_ejemplo pagos_ejemplo \<noteq> []" unfolding p by simp
  show ?thesis
    using C3_esta_al_dia[of 300 socio_ejemplo pagos_ejemplo]
      C3_esta_al_dia[of 301 socio_ejemplo pagos_ejemplo]
      C3_esta_al_dia[of 330 socio_nuevo pagos_ejemplo]
      C3_esta_al_dia[of 331 socio_nuevo pagos_ejemplo]
    by (simp add: m q r ne)
qed


section \<open>The claim about the beneficiary search\<close>

lemma starts_with_iff: "starts_with xs t \<longleftrightarrow> (\<exists>q. xs = t @ q)"
  by (induction xs t rule: starts_with.induct) auto

lemma contains_iff: "contains xs t \<longleftrightarrow> (\<exists>p q. xs = p @ t @ q)"
proof (induction xs)
  case Nil
  then show ?case by auto
next
  case (Cons x xs)
  show ?case
  proof
    assume "contains (x # xs) t"
    then consider "starts_with (x # xs) t" | "contains xs t" by auto
    then show "\<exists>p q. x # xs = p @ t @ q"
    proof cases
      case 1
      then obtain q where "x # xs = t @ q" using starts_with_iff by blast
      then have "x # xs = [] @ t @ q" by simp
      then show ?thesis by blast
    next
      case 2
      then obtain p q where "xs = p @ t @ q" using Cons.IH by blast
      then have "x # xs = (x # p) @ t @ q" by simp
      then show ?thesis by blast
    qed
  next
    assume "\<exists>p q. x # xs = p @ t @ q"
    then obtain p q where e: "x # xs = p @ t @ q" by blast
    show "contains (x # xs) t"
    proof (cases p)
      case Nil
      then have "starts_with (x # xs) t" using e starts_with_iff by auto
      then show ?thesis by simp
    next
      case (Cons a p')
      then have "xs = p' @ t @ q" using e by simp
      then have "contains xs t" using Cons.IH by blast
      then show ?thesis by simp
    qed
  qed
qed

lemma icontains_iff:
  "icontains field term \<longleftrightarrow> (\<exists>p q. map lower field = p @ map lower term @ q)"
  by (simp add: icontains_def contains_iff)

lemma coincide_iff:
  "coincide term b \<longleftrightarrow>
     (\<exists>p q. map lower (nombres b) = p @ map lower term @ q) \<or>
     (\<exists>p q. map lower (apellidos b) = p @ map lower term @ q) \<or>
     (\<exists>p q. map lower (documento_identidad b) = p @ map lower term @ q)"
  by (simp add: coincide_def icontains_iff)

lemma resultados_take_filter:
  "length (take 10 (filter P xs)) \<le> 10 \<and>
   (\<forall>b\<in>set (take 10 (filter P xs)). b \<in> set xs \<and> P b)"
  by (auto dest: in_set_takeD)

text \<open>
  C4, as stated for every request, fails on the workshop module's endpoint: the view is
  wrapped in \<open>permiso_talleres_required\<close>, and a request of an anonymous user with the
  two-character term \<open>ab\<close> is answered with a redirect to the login page, not with an
  empty JSON list.
\<close>

theorem C4_busqueda_sin_permiso:
  "length ''ab'' < 3 \<and>
   fst (buscar_beneficiarias
          \<lparr>GET = [''term'' \<mapsto> ''ab''],
           user = \<lparr>is_authenticated = False, role = [], permiso_talleres = False\<rparr>\<rparr>
          [] []) \<noteq> JsonResponse []"
  by (simp add: buscar_beneficiarias_def permiso_talleres_required_def)

lemma resultados_coinciden:
  "length (take 10 (filter (coincide term) tabla)) \<le> 10 \<and>
      (\<forall>b\<in>set (take 10 (filter (coincide term) tabla)). b \<in> set tabla \<and>
         ((\<exists>p q. map lower (nombres b) = p @ map lower term @ q) \<or>
          (\<exists>p q. map lower (apellidos b) = p @ map lower term @ q) \<or>
          (\<exists>p q. map lower (documento_identidad b) = p @ map lower term @ q)))"
  using resultados_take_filter[of "coincide term" tabla] unfolding coincide_iff by blast

lemma buscar_beneficiarias_api_corto:
  assumes "term = (case GET request ''term'' of None \<Rightarrow> [] | Some v \<Rightarrow> v)"
    and "length term < 3"
  shows "buscar_beneficiarias_api request tabla = JsonResponse []"
  using assms by (simp add: buscar_beneficiarias_api_def)

lemma buscar_beneficiarias_func_corto:
  assumes "term = (case GET request ''term'' of None \<Rightarrow> [] | Some v \<Rightarrow> v)"
    and "length term < 3"
  shows "buscar_beneficiarias_func request tabla = JsonResponse []"
  using assms by (simp add: buscar_beneficiarias_func_def)

lemma buscar_beneficiarias_api_largo:
  assumes "term = (case GET request ''term'' of None \<Rightarrow> [] | Some v \<Rightarrow> v)"
    and "3 \<le> length term"
  shows "buscar_beneficiarias_api request tabla =
      JsonResponse
        (map (\<lambda>b. [(''id'', JInt (int (beneficiaria_pk b))),
                   (''nombres'', JStr (nombres b)),
                   (''apellidos'', JStr (apellidos b)),
                   (''dni'', JStr (documento_identidad b)),
                   (''telefono'', JStr (telefono b)),
                   (''correo'', JStr (correo b))]) (take 10 (filter (coincide term) tabla)))"
  using assms by (simp add: buscar_beneficiarias_api_def Let_def)

lemma buscar_beneficiarias_func_largo:
  assumes "term = (case GET request ''term'' of None \<Rightarrow> [] | Some v \<Rightarrow> v)"
    and "3 \<le> length term"
  shows "buscar_beneficiarias_func request tabla =
      JsonResponse
        (map (\<lambda>b. [(''id'', JInt (int (beneficiaria_pk b))),
                   (''nombres'', JStr (nombres b)),
                   (''apellidos'', JStr (apellidos b)),
                   (''dni'', JStr (documento_identidad b)),
                   (''telefono'', JStr (telefono b)),
                   (''email'', JStr (correo b))]) (take 10 (filter (coincide term) tabla)))"
  using assms by (simp add: buscar_beneficiarias_func_def Let_def)

lemma buscar_beneficiarias_con_permiso:
  "is_authenticated (user request) \<and> can_access_talleres (user request) \<Longrightarrow>
   fst (buscar_beneficiarias request tabla msgs) = buscar_beneficiarias_func request tabla"
  by (simp add: buscar_beneficiarias_def permiso_talleres_required_def)

lemma respuesta_acotada:
  "resp = JsonResponse (map f bs) \<and> length bs \<le> 10 \<and> Q \<Longrightarrow>
   \<exists>rs. resp = JsonResponse rs \<and> length rs \<le> 10"
  by auto

text \<open>
  C4 (amended). Let \<open>term\<close> be the query parameter \<open>term\<close> of the request (the empty string
  when it is absent). For every request to \<open>buscar_beneficiarias_api\<close>, and for every
  request to the workshop module's \<open>buscar_beneficiarias\<close> whose user is authenticated and
  may access the workshop module: if \<open>term\<close> has fewer than 3 characters the response is
  the empty JSON list; otherwise it is the JSON list of the rows of at most 10
  beneficiaries of the table, each of which has \<open>term\<close>, letters compared without case, as
  a contiguous substring of its names, surnames or document number.
\<close>

theorem C4_busqueda:
  assumes "term = (case GET request ''term'' of None \<Rightarrow> [] | Some v \<Rightarrow> v)"
  shows
   "(length term < 3 \<longrightarrow> buscar_beneficiarias_api request tabla = JsonResponse []) \<and>
    (3 \<le> length term \<longrightarrow>
       (\<exists>bs. buscar_beneficiarias_api request tabla =
                JsonResponse
                  (map (\<lambda>b. [(''id'', JInt (int (beneficiaria_pk b))),
                             (''nombres'', JStr (nombres b)),
                             (''apellidos'', JStr (apellidos b)),
                             (''dni'', JStr (documento_identidad b)),
                             (''telefono'', JStr (telefono b)),
                             (''correo'', JStr (correo b))]) bs) \<and>
              length bs \<le> 10 \<and>
              (\<forall>b\<in>set bs. b \<in> set tabla \<and>
                 ((\<exists>p q. map lower (nombres b) = p @ map lower term @ q) \<or>
                  (\<exists>p q. map lower (apellidos b) = p @ map lower term @ q) \<or>
                  (\<exists>p q. map lower (documento_identidad b) = p @ map lower term @ q))))) \<and>
    (is_authenticated (user request) \<and> can_access_talleres (user request) \<longrightarrow>
       (length term < 3 \<longrightarrow>
          fst (buscar_beneficiarias request tabla msgs) = JsonResponse []) \<and>
       (3 \<le> length term \<longrightarrow>
          (\<exists>bs. fst (buscar_beneficiarias request tabla msgs) =
                   JsonResponse
                     (map (\<lambda>b. [(''id'', JInt (int (beneficiaria_pk b))),
                                (''nombres'', JStr (nombres b)),
                                (''apellidos'', JStr (apellidos b)),
                                (''dni'', JStr (documento_identidad b)),
                                (''telefono'', JStr (telefono b)),
                                (''email'', JStr (correo b))]) bs) \<and>
                 length bs \<le> 10 \<and>
                 (\<forall>b\<in>set bs. b \<in> set tabla \<and>
                    ((\<exists>p q. map lower (nombres b) = p @ map lower term @ q) \<or>
                     (\<exists>p q. map lower (apellidos b) = p @ map lower term @ q) \<or>
                     (\<exists>p q. map lower (documento_identidad b) = p @ map lower term @ q))))))"
proof -
  let ?bs = "take 10 (filter (coincide term) tabla)"
  note bs = resultados_coinciden[of "term" tabla]
  show ?thesis
  proof (intro conjI impI)
    assume "length term < 3"
    with assms show "buscar_beneficiarias_api request tabla = JsonResponse []"
      by (rule buscar_beneficiarias_api_corto)
  next
    assume l: "3 \<le> length term"
    show "\<exists>bs. buscar_beneficiarias_api request tabla =
                JsonResponse
                  (map (\<lambda>b. [(''id'', JInt (int (beneficiaria_pk b))),
                             (''nombres'', JStr (nombres b)),
                             (''apellidos'', JStr (apellidos b)),
                             (''dni'', JStr (documento_identidad b)),
                             (''telefono'', JStr (telefono b)),
                             (''correo'', JStr (correo b))]) bs) \<and>
              length bs \<le> 10 \<and>
              (\<forall>b\<in>set bs. b \<in> set tabla \<and>
                 ((\<exists>p q. map lower (nombres b) = p @ map lower term @ q) \<or>
                  (\<exists>p q. map lower (apellidos b) = p @ map lower term @ q) \<or>
                  (\<exists>p q. map lower (documento_identidad b) = p @ map lower term @ q)))"
      by (rule exI[of _ ?bs]) (rule conjI[OF buscar_beneficiarias_api_largo[OF assms l] bs])
  next
    assume "is_authenticated (user request) \<and> can_access_talleres (user request)"
      and "length term < 3"
    then show "fst (buscar_beneficiarias request tabla msgs) = JsonResponse []"
      using buscar_beneficiarias_con_permiso[of request tabla msgs]
        buscar_beneficiarias_func_corto[OF assms, of tabla] by simp
  next
    assume a: "is_authenticated (user request) \<and> can_access_talleres (user request)"
      and l: "3 \<le> length term"
    have r: "fst (buscar_beneficiarias request tabla msgs) =
      JsonResponse
        (map (\<lambda>b. [(''id'', JInt (int (beneficiaria_pk b))),
                   (''nombres'', JStr (nombres b)),
                   (''apellidos'', JStr (apellidos b)),
                   (''dni'', JStr (documento_identidad b)),
                   (''telefono'', JStr (telefono b)),
                   (''email'', JStr (correo b))]) ?bs)"
      using buscar_beneficiarias_con_permiso[OF a] buscar_beneficiarias_func_largo[OF assms l]
      by (rule trans)
    show "\<exists>bs. fst (buscar_beneficiarias request tabla msgs) =
                   JsonResponse
                     (map (\<lambda>b. [(''id'', JInt (int (beneficiaria_pk b))),
                                (''nombres'', JStr (nombres b)),
                                (''apellidos'', JStr (apellidos b)),
                                (''dni'', JStr (documento_identidad b)),
                                (''telefono'', JStr (telefono b)),
                                (''email'', JStr (correo b))]) bs) \<and>
                 length bs \<le> 10 \<and>
                 (\<forall>b\<in>set bs. b \<in> set tabla \<and>
                    ((\<exists>p q. map lower (nombres b) = p @ map lower term @ q) \<or>
                     (\<exists>p q. map lower (apellidos b) = p @ map lower term @ q) \<or>
                     (\<exists>p q. map lower (documento_identidad b) = p @ map lower term @ q)))"
      by (rule exI[of _ ?bs]) (rule conjI[OF r bs])
  qed
qed

theorem C4_busqueda_witness:
  "''ANA'' = (case GET request_ejemplo ''term'' of None \<Rightarrow> [] | Some v \<Rightarrow> v) \<and>
   3 \<le> length ''ANA'' \<and>
   is_authenticated (user request_ejemplo) \<and> can_access_talleres (user request_ejemplo) \<and>
   (\<exists>rs. buscar_beneficiarias_api request_ejemplo beneficiarias_ejemplo = JsonResponse rs \<and>
         length rs \<le> 10) \<and>
   (\<exists>rs. fst (buscar_beneficiarias request_ejemplo beneficiarias_ejemplo []) = JsonResponse rs \<and>
         length rs \<le> 10)"
proof -
  have h: "''ANA'' = (case GET request_ejemplo ''term'' of None \<Rightarrow> [] | Some v \<Rightarrow> v)"
    by (simp add: request_ejemplo_def)
  have l: "3 \<le> length ''ANA''" by simp
  have a: "is_authenticated (user request_ejemplo) \<and> can_access_talleres (user request_ejemplo)"
    by (simp add: request_ejemplo_def can_access_talleres_def)
  note T = C4_busqueda[OF h, of beneficiarias_ejemplo "[]"]
  have r1: "\<exists>rs. buscar_beneficiarias_api request_ejemplo beneficiarias_ejemplo = JsonResponse rs \<and>
         length rs \<le> 10"
    using T[THEN conjunct2, THEN conjunct1, rule_format, OF l]
    by (elim exE) (erule respuesta_acotada)
  have r2: "\<exists>rs. fst (buscar_beneficiarias request_ejemplo beneficiarias_ejemplo []) = JsonResponse rs \<and>
         length rs \<le> 10"
    using T[THEN conjunct2, THEN conjunct2, rule_format, OF a, THEN conjunct2, rule_format, OF l]
    by (elim exE) (erule respuesta_acotada)
  show ?thesis using h l a r1 r2 by blast
qed

text \<open>The two endpoints on the example table: \<open>ANA\<close> matches a name and a surname.\<close>

lemma busqueda_ejemplo:
  "buscar_beneficiarias_api request_ejemplo beneficiarias_ejemplo =
     JsonResponse
       [[(''id'', JInt 1), (''nombres'', JStr ''Ana Maria''), (''apellidos'', JStr ''Quispe''),
         (''dni'', JStr ''40112233''), (''telefono'', JStr ''999111222''), (''correo'', JStr [])],
        [(''id'', JInt 3), (''nombres'', JStr ''Luz''), (''apellidos'', JStr ''Santana''),
         (''dni'', JStr ''42334455''), (''telefono'', JStr []), (''correo'', JStr [])]]"
  by code_simp


section \<open>The claim about voucher numbers\<close>

text \<open>\<open>str\<close> produces digits only, and \<open>int\<close> reads them back: \<open>int(str(m)) = m\<close>.\<close>

lemma is_digit_not_special:
  "is_digit c \<Longrightarrow> \<not> is_space c \<and> c \<noteq> CHR ''_'' \<and> c \<noteq> CHR ''-'' \<and> c \<noteq> CHR ''+''"
  by (auto simp: is_digit_def is_space_def)

lemma is_digit_digit_char: "d < 10 \<Longrightarrow> is_digit (digit_char d)"
  by (simp add: is_digit_def digit_char_def)

lemma digit_val_digit_char: "d < 10 \<Longrightarrow> digit_val (digit_char d) = d"
  by (simp add: digit_val_def digit_char_def)

lemma py_digits_eq_rest: "is_digit c \<Longrightarrow> py_digits acc (c # cs) = py_digits_rest acc (c # cs)"
  using is_digit_not_special[of c] by simp

lemma py_digits_rest_snoc:
  "list_all is_digit ds \<Longrightarrow> is_digit c \<Longrightarrow>
   py_digits_rest acc (ds @ [c]) = map_option (\<lambda>v. 10 * v + digit_val c) (py_digits_rest acc ds)"
proof (induction ds arbitrary: acc)
  case Nil
  then show ?case using is_digit_not_special[of c] by simp
next
  case (Cons d ds)
  then show ?case using is_digit_not_special[of d] by simp
qed

lemma str_nat_digits: "list_all is_digit (str_nat n) \<and> str_nat n \<noteq> []"
proof (induction n rule: str_nat.induct)
  case (1 n)
  show ?case
  proof (cases "n < 10")
    case True
    then show ?thesis by (simp add: str_nat.simps[of n] is_digit_digit_char)
  next
    case False
    then have "str_nat n = str_nat (n div 10) @ [digit_char (n mod 10)]"
      by (simp add: str_nat.simps[of n])
    moreover have "list_all is_digit (str_nat (n div 10))" using 1 False by simp
    moreover have "is_digit (digit_char (n mod 10))" by (simp add: is_digit_digit_char)
    ultimately show ?thesis by simp
  qed
qed

lemma py_digits_rest_str_nat: "py_digits_rest 0 (str_nat n) = Some n"
proof (induction n rule: str_nat.induct)
  case (1 n)
  show ?case
  proof (cases "n < 10")
    case True
    then show ?thesis
      using is_digit_not_special[of "digit_char n"]
      by (simp add: str_nat.simps[of n] is_digit_digit_char digit_val_digit_char)
  next
    case False
    then have e: "str_nat n = str_nat (n div 10) @ [digit_char (n mod 10)]"
      by (simp add: str_nat.simps[of n])
    have ih: "py_digits_rest 0 (str_nat (n div 10)) = Some (n div 10)" using 1 False by simp
    have "py_digits_rest 0 (str_nat n) =
        map_option (\<lambda>v. 10 * v + digit_val (digit_char (n mod 10))) (py_digits_rest 0 (str_nat (n div 10)))"
      unfolding e
      by (rule py_digits_rest_snoc) (simp_all add: str_nat_digits is_digit_digit_char)
    then show ?thesis by (simp add: ih digit_val_digit_char)
  qed
qed

lemma py_digits_str_nat: "py_digits 0 (str_nat n) = Some n"
proof -
  obtain c cs where e: "str_nat n = c # cs" using str_nat_digits[of n] by (cases "str_nat n") auto
  then have "is_digit c" using str_nat_digits[of n] by simp
  then show ?thesis using py_digits_rest_str_nat[of n] unfolding e by (simp only: py_digits_eq_rest)
qed

lemma strip_id:
  assumes "s \<noteq> []" and "\<not> is_space (hd s)" and "\<not> is_space (last s)"
  shows "strip s = s"
proof -
  have a: "dropWhile is_space s = s" using assms(1,2) by (cases s) auto
  have "rev s \<noteq> []" and "\<not> is_space (hd (rev s))" using assms(1,3) by (simp_all add: hd_rev)
  then have b: "dropWhile is_space (rev s) = rev s" by (cases "rev s") auto
  show ?thesis by (simp add: strip_def a b)
qed

lemma str_nat_ends: "\<not> is_space (hd (str_nat n)) \<and> \<not> is_space (last (str_nat n))"
proof -
  have d: "list_all is_digit (str_nat n)" and ne: "str_nat n \<noteq> []" using str_nat_digits by auto
  then have "is_digit (hd (str_nat n))" "is_digit (last (str_nat n))"
    by (auto simp: list_all_iff)
  then show ?thesis using is_digit_not_special by blast
qed

lemma py_int_cons:
  "strip s = c # cs \<Longrightarrow>
   py_int s =
     (case (if c = CHR ''-'' then map_option (\<lambda>n. - int n) (py_digits 0 cs)
            else if c = CHR ''+'' then map_option int (py_digits 0 cs)
            else map_option int (py_digits 0 (c # cs))) of
        None \<Rightarrow> Inl ValueError
      | Some n \<Rightarrow> Inr n)"
  by (simp add: py_int_def)

lemma py_int_unsigned:
  assumes st: "strip s = c # cs" and nm: "c \<noteq> CHR ''-''" and np: "c \<noteq> CHR ''+''"
    and pd: "py_digits 0 (c # cs) = Some k"
  shows "py_int s = Inr (int k)"
  unfolding py_int_cons[OF st] using nm np by (simp add: pd del: py_digits.simps)

lemma py_int_minus:
  assumes st: "strip s = CHR ''-'' # cs" and pd: "py_digits 0 cs = Some k"
  shows "py_int s = Inr (- int k)"
  unfolding py_int_cons[OF st] by (simp add: pd)

lemma py_int_str_int_neg:
  assumes "m < 0"
  shows "py_int (str_int m) = Inr m"
proof -
  let ?k = "nat (- m)"
  let ?s = "CHR ''-'' # str_nat ?k"
  have ne: "str_nat ?k \<noteq> []" using str_nat_digits[of ?k] by (rule conjunct2)
  have sp: "\<not> is_space (CHR ''-'')" by (simp add: is_space_def)
  have l: "last ?s = last (str_nat ?k)" using ne by (rule last_ConsR)
  have "\<not> is_space (last ?s)" unfolding l using str_nat_ends[of ?k] by (rule conjunct2)
  moreover have "\<not> is_space (hd ?s)" using sp by simp
  moreover have "?s \<noteq> []" by (rule list.distinct(2))
  ultimately have st: "strip ?s = ?s" by (intro strip_id)
  have p: "py_int ?s = Inr (- int ?k)"
    using st py_digits_str_nat[of ?k] by (rule py_int_minus)
  have s1: "str_int m = ?s" using assms by (simp only: str_int_def if_True)
  have s2: "- int ?k = m" using assms by simp
  show ?thesis using p unfolding s1 s2 .
qed

lemma py_int_str_int_nonneg:
  assumes "\<not> m < 0"
  shows "py_int (str_int m) = Inr m"
proof -
  let ?k = "nat m"
  let ?s = "str_nat ?k"
  have ne: "?s \<noteq> []" using str_nat_digits[of ?k] by (rule conjunct2)
  then obtain c cs where e: "?s = c # cs" by (auto simp: neq_Nil_conv)
  have "list_all is_digit (c # cs)" using str_nat_digits[of ?k] unfolding e by (rule conjunct1)
  then have dc: "is_digit c" by simp
  have nm: "c \<noteq> CHR ''-''" and np: "c \<noteq> CHR ''+''"
    using is_digit_not_special[OF dc] by simp_all
  have "\<not> is_space (hd ?s)" "\<not> is_space (last ?s)" using str_nat_ends[of ?k] by simp_all
  with ne have "strip ?s = ?s" by (intro strip_id)
  then have st: "strip ?s = c # cs" unfolding e .
  have pd: "py_digits 0 (c # cs) = Some ?k" using py_digits_str_nat[of ?k] unfolding e .
  have p: "py_int ?s = Inr (int ?k)"
    using st nm np pd by (rule py_int_unsigned)
  have s1: "str_int m = ?s" using assms by (simp only: str_int_def if_False)
  have s2: "int ?k = m" using assms by simp
  show ?thesis using p unfolding s1 s2 .
qed

lemma py_int_str_int: "py_int (str_int m) = Inr m"
proof (cases "m < 0")
  case True
  then show ?thesis by (rule py_int_str_int_neg)
next
  case False
  then show ?thesis by (rule py_int_str_int_nonneg)
qed

lemma str_int_inj:
  assumes "str_int a = str_int b"
  shows "a = b"
proof -
  have "(Inr a :: error + int) = py_int (str_int a)" by (rule py_int_str_int[symmetric])
  also have "\<dots> = py_int (str_int b)" by (rule arg_cong[OF assms])
  also have "\<dots> = Inr b" by (rule py_int_str_int)
  finally show ?thesis by (simp only: sum.inject)
qed

lemma py_int_Nil: "py_int [] = Inl ValueError"
  by (simp add: py_int_def strip_def)

lemma first_order_by_id_desc:
  assumes "tabla \<noteq> []"
  shows "\<exists>p. first (order_by_id_desc tabla) = Some p \<and> p \<in> set tabla \<and>
             (\<forall>q\<in>set tabla. pago_pk q \<le> pago_pk p)"
proof -
  from first_sort_key_Max[OF assms, of "\<lambda>p. int (pago_pk p)"]
  obtain p where f: "first (order_by_id_desc tabla) = Some p" and p: "p \<in> set tabla"
    and m: "int (pago_pk p) = Max ((\<lambda>p. int (pago_pk p)) ` set tabla)"
    unfolding order_by_id_desc_def by blast
  have "\<forall>q\<in>set tabla. pago_pk q \<le> pago_pk p"
  proof
    fix q assume "q \<in> set tabla"
    then have "int (pago_pk q) \<le> Max ((\<lambda>p. int (pago_pk p)) ` set tabla)" by simp
    then show "pago_pk q \<le> pago_pk p" using m by simp
  qed
  with f p show ?thesis by blast
qed

lemma ultimo_pago_unico:
  assumes d: "distinct (map pago_pk tabla)" and p: "p \<in> set tabla"
    and mx: "\<forall>q\<in>set tabla. pago_pk q \<le> pago_pk p"
  shows "first (order_by_id_desc tabla) = Some p"
proof -
  have "tabla \<noteq> []" using p by auto
  from first_order_by_id_desc[OF this]
  obtain p0 where f: "first (order_by_id_desc tabla) = Some p0" and p0: "p0 \<in> set tabla"
    and mx0: "\<forall>q\<in>set tabla. pago_pk q \<le> pago_pk p0" by blast
  have "pago_pk p = pago_pk p0" using mx mx0 p p0 by (simp add: le_antisym)
  then have "p = p0" using d p p0 by (meson distinct_map inj_onD)
  then show ?thesis using f by simp
qed

lemma get_next_comprobante_ultimo:
  assumes "first (order_by_id_desc tabla) = Some p"
  shows "get_next_comprobante tabla =
           (case py_int (comprobante p) of Inr n \<Rightarrow> str_int (n + 1) | Inl e \<Rightarrow> ''1'')"
proof (cases "comprobante p = []")
  case True
  then show ?thesis using assms by (simp add: get_next_comprobante_def py_int_Nil)
next
  case False
  then show ?thesis using assms by (simp add: get_next_comprobante_def)
qed

lemma get_next_comprobante_vacia: "get_next_comprobante [] = ''1''"
  by (simp add: get_next_comprobante_def order_by_id_desc_def first_def)

lemma str_int_1: "str_int 1 = ''1''"
  by code_simp

text \<open>
  C10, as stated, fails where it says that the result is always the decimal string of a
  positive integer: \<open>int\<close> accepts a sign, so after a payment whose \<open>comprobante\<close> is
  \<open>-5\<close> the next number is \<open>-4\<close>.
\<close>

theorem C10_siguiente_negativo:
  "get_next_comprobante [\<lparr>pago_pk = 1, socio_id = 7, fecha = 200, comprobante = ''-5''\<rparr>] = ''-4'' \<and>
   ''-4'' = str_int (- 4) \<and> \<not> (0 < (- 4 :: int))"
  by code_simp

text \<open>
  C10 (amended). With unique primary keys: on an empty table the result is \<open>1\<close>; when
  \<open>p\<close> is the payment created last (the largest \<open>id\<close>) and its \<open>comprobante\<close> parses as
  the integer \<open>n\<close>, the result is \<open>str(n + 1)\<close>, the string of a positive integer when
  \<open>n\<close> is not negative; when it does not parse (which includes the empty string), the
  result is \<open>1\<close>. In every case the result is the decimal string of an integer and
  parses back to it.
\<close>

theorem C10_get_next_comprobante:
  assumes "distinct (map pago_pk tabla)"
  shows "(tabla = [] \<longrightarrow> get_next_comprobante tabla = ''1'') \<and>
         (\<forall>p\<in>set tabla. (\<forall>q\<in>set tabla. pago_pk q \<le> pago_pk p) \<longrightarrow>
            (\<forall>n. py_int (comprobante p) = Inr n \<longrightarrow>
                 get_next_comprobante tabla = str_int (n + 1) \<and> (0 \<le> n \<longrightarrow> 0 < n + 1)) \<and>
            ((\<forall>n. py_int (comprobante p) \<noteq> Inr n) \<longrightarrow> get_next_comprobante tabla = ''1'')) \<and>
         ''1'' = str_int 1 \<and>
         (\<exists>m. get_next_comprobante tabla = str_int m \<and>
              py_int (get_next_comprobante tabla) = Inr m)"
proof -
  have vacia: "tabla = [] \<longrightarrow> get_next_comprobante tabla = ''1''"
    by (simp add: get_next_comprobante_vacia)
  have ultimo: "\<forall>p\<in>set tabla. (\<forall>q\<in>set tabla. pago_pk q \<le> pago_pk p) \<longrightarrow>
            (\<forall>n. py_int (comprobante p) = Inr n \<longrightarrow>
                 get_next_comprobante tabla = str_int (n + 1) \<and> (0 \<le> n \<longrightarrow> 0 < n + 1)) \<and>
            ((\<forall>n. py_int (comprobante p) \<noteq> Inr n) \<longrightarrow> get_next_comprobante tabla = ''1'')"
  proof (intro ballI impI)
    fix p assume p: "p \<in> set tabla" and mx: "\<forall>q\<in>set tabla. pago_pk q \<le> pago_pk p"
    note g = get_next_comprobante_ultimo[OF ultimo_pago_unico[OF assms p mx]]
    show "(\<forall>n. py_int (comprobante p) = Inr n \<longrightarrow>
                 get_next_comprobante tabla = str_int (n + 1) \<and> (0 \<le> n \<longrightarrow> 0 < n + 1)) \<and>
          ((\<forall>n. py_int (comprobante p) \<noteq> Inr n) \<longrightarrow> get_next_comprobante tabla = ''1'')"
      unfolding g by (cases "py_int (comprobante p)") simp_all
  qed
  have "\<exists>m. get_next_comprobante tabla = str_int m"
  proof (cases "tabla = []")
    case True
    then have "get_next_comprobante tabla = str_int 1"
      by (simp only: get_next_comprobante_vacia str_int_1)
    then show ?thesis by (rule exI)
  next
    case False
    from first_order_by_id_desc[OF this] obtain p where
      "first (order_by_id_desc tabla) = Some p" by blast
    note g = get_next_comprobante_ultimo[OF this]
    show ?thesis
    proof (cases "py_int (comprobante p)")
      case (Inl e)
      have "get_next_comprobante tabla = str_int 1" unfolding g Inl by (simp add: str_int_1)
      then show ?thesis by (rule exI)
    next
      case (Inr n)
      have "get_next_comprobante tabla = str_int (n + 1)" unfolding g Inr by simp
      then show ?thesis by (rule exI)
    qed
  qed
  then obtain m where m: "get_next_comprobante tabla = str_int m" by blast
  have "py_int (get_next_comprobante tabla) = Inr m" unfolding m by (rule py_int_str_int)
  with m have decimal: "\<exists>m. get_next_comprobante tabla = str_int m \<and>
              py_int (get_next_comprobante tabla) = Inr m" by blast
  show ?thesis using vacia ultimo str_int_1[symmetric] decimal by (intro conjI)
qed

theorem C10_get_next_comprobante_witness:
  "distinct (map pago_pk pagos_ejemplo) \<and>
   py_int ''41'' = Inr 41 \<and>
   get_next_comprobante pagos_ejemplo = ''42''"
proof -
  let ?p = "\<lparr>pago_pk = 4, socio_id = 7, fecha = 230, comprobante = ''41''\<rparr>"
  have d: "distinct (map pago_pk pagos_ejemplo)" by (simp add: pagos_ejemplo_def)
  have p: "?p \<in> set pagos_ejemplo" by (simp add: pagos_ejemplo_def)
  have mx: "\<forall>q\<in>set pagos_ejemplo. pago_pk q \<le> pago_pk ?p" by (simp add: pagos_ejemplo_def)
  have pi: "py_int ''41'' = Inr 41" by code_simp
  then have pi': "py_int (comprobante ?p) = Inr 41" by simp
  have s: "str_int (41 + 1) = ''42''" by code_simp
  note T = C10_get_next_comprobante[OF d]
  note U = mp[OF bspec[OF T[THEN conjunct2, THEN conjunct1] p] mx]
  note V = mp[OF spec[OF U[THEN conjunct1], of 41] pi']
  have "get_next_comprobante pagos_ejemplo = str_int (41 + 1)" using V by (rule conjunct1)
  then have "get_next_comprobante pagos_ejemplo = ''42''" by (simp only: s)
  with d pi show ?thesis by (intro conjI)
qed

end
